theory Spec2Isabelle
  imports Main "HOL-Library.Log_Nat"
begin

section \<open>Text helpers shared by both pipelines\<close>

text \<open>
  A Python string is modelled as a \<open>string\<close>: a list of characters with the code points
  0 to 255. \<open>str.strip()\<close> and \<open>str.split()\<close> with no argument and the class \<open>\s\<close> of
  \<open>re\<close> go by \<open>str.isspace\<close>, which holds among these code points for 9 to 13, 28 to
  32, 133 (next line) and 160 (no-break space).
\<close>

definition py_isspace :: "char \<Rightarrow> bool" where
  "py_isspace c =
     (let n = (of_char c :: nat)
      in (9 \<le> n \<and> n \<le> 13) \<or> (28 \<le> n \<and> n \<le> 32) \<or> n = 133 \<or> n = 160)"

definition strip :: "string \<Rightarrow> string" where
  "strip s = rev (dropWhile py_isspace (rev (dropWhile py_isspace s)))"

text \<open>
  \<open>str.lower()\<close>: among the code points 0 to 255 the capital letters are 65 to 90 and
  192 to 222 without 215, each 32 below its small letter.
\<close>

definition py_lower_char :: "char \<Rightarrow> char" where
  "py_lower_char c =
     (let n = (of_char c :: nat)
      in if (65 \<le> n \<and> n \<le> 90) \<or> (192 \<le> n \<and> n \<le> 222 \<and> n \<noteq> 215)
         then char_of (n + 32) else c)"

definition py_lower :: "string \<Rightarrow> string" where
  "py_lower s = map py_lower_char s"

section \<open>URL deduplication (src/main.py, src/runner.py)\<close>

text \<open>
  \<open>dedupe_urls\<close> of src/main.py: the loop over \<open>urls\<close> carries the set \<open>seen\<close> and the
  list \<open>result\<close>; \<open>result.append(u)\<close> is \<open>result @ [u]\<close>.
\<close>

fun dedupe_loop :: "string list \<Rightarrow> string set \<Rightarrow> string list \<Rightarrow> string list" where
  "dedupe_loop [] seen result = result"
| "dedupe_loop (u # us) seen result =
     (let u' = strip u in
      if u' = [] then dedupe_loop us seen result
      else if u' \<notin> seen then dedupe_loop us (insert u' seen) (result @ [u'])
      else dedupe_loop us seen result)"

definition dedupe_urls :: "string list \<Rightarrow> string list" where
  "dedupe_urls urls = dedupe_loop urls {} []"

text \<open>
  The inline loop of \<open>main\<close> in src/runner.py (lines 234 to 241), with
  \<open>normalize_url(url) = url.strip()\<close>.
\<close>

definition normalize_url :: "string \<Rightarrow> string" where
  "normalize_url url = strip url"

fun runner_dedupe_loop :: "string list \<Rightarrow> string set \<Rightarrow> string list \<Rightarrow> string list" where
  "runner_dedupe_loop [] seen_urls unique_product_urls = unique_product_urls"
| "runner_dedupe_loop (url # urls) seen_urls unique_product_urls =
     (let norm = normalize_url url in
      if norm \<noteq> [] \<and> norm \<notin> seen_urls
      then runner_dedupe_loop urls (insert norm seen_urls) (unique_product_urls @ [norm])
      else runner_dedupe_loop urls seen_urls unique_product_urls)"

definition runner_dedupe :: "string list \<Rightarrow> string list" where
  "runner_dedupe product_urls = runner_dedupe_loop product_urls {} []"

text \<open>
  The specification's wording, as a function of its own: keep the first occurrence of
  each distinct element, in the order of first occurrence.
\<close>

fun first_occurrences :: "'a list \<Rightarrow> 'a list" where
  "first_occurrences [] = []"
| "first_occurrences (x # xs) = x # first_occurrences (filter (\<lambda>y. y \<noteq> x) xs)"

definition trimmed_nonempty :: "string list \<Rightarrow> string list" where
  "trimmed_nonempty urls = filter (\<lambda>u. u \<noteq> []) (map strip urls)"

section \<open>Python values\<close>

text \<open>
  A Python \<open>float\<close> is a binary64 value: a finite number (modelled by the rational it
  denotes; the sign of zero is not kept), an infinity or a NaN.
\<close>

datatype pyfloat = Fin rat | PInf | NInf | NaN

text \<open>
  What \<open>json.loads\<close> returns, and what the dictionaries passed between the extractors
  hold. A \<open>dict\<close> is an association list; \<open>d.get(k)\<close> is the first binding of \<open>k\<close>, or
  \<open>None\<close>.
\<close>

datatype pyval =
    PNone
  | PBool bool
  | PInt int
  | PFloat pyfloat
  | PStr string
  | PList "pyval list"
  | PDict "(string \<times> pyval) list"

type_synonym pydict = "(string \<times> pyval) list"

datatype exn =
    AttributeError | TypeError | ValueError | OverflowError | ZeroDivisionError
  | JSONDecodeError | RecursionError

definition py_get :: "pydict \<Rightarrow> string \<Rightarrow> pyval" where
  "py_get d k = (case map_of d k of None \<Rightarrow> PNone | Some v \<Rightarrow> v)"

text \<open>Truth value testing (\<open>if x\<close>, \<open>not x\<close>, \<open>x or y\<close>).\<close>

fun truthy :: "pyval \<Rightarrow> bool" where
  "truthy PNone = False"
| "truthy (PBool b) = b"
| "truthy (PInt n) = (n \<noteq> 0)"
| "truthy (PFloat x) = (x \<noteq> Fin 0)"
| "truthy (PStr s) = (s \<noteq> [])"
| "truthy (PList xs) = (xs \<noteq> [])"
| "truthy (PDict d) = (d \<noteq> [])"

definition py_or :: "pyval \<Rightarrow> pyval \<Rightarrow> pyval" where
  "py_or a b = (if truthy a then a else b)"

section \<open>Library functions\<close>

text \<open>
  The functions of the Python library that the extractors call and that are not part of
  this program are parameters of the model: \<open>json.loads\<close> (which raises
  \<open>JSONDecodeError\<close> on a malformed text and \<open>RecursionError\<close> on a too deeply nested
  one), \<open>repr\<close> for the values whose \<open>str()\<close> is not written out below,
  \<open>datetime.strptime\<close> (a date is year, month, day; \<open>Inl ValueError\<close> when the text does
  not match the format), and the built-in \<open>sum\<close> over a list of floats (plain addition
  from the left before CPython 3.12, compensated summation from then on).
\<close>

record date =
  year :: nat
  month :: nat
  day :: nat

record pylib =
  json_loads :: "string \<Rightarrow> exn + pyval"
  py_repr :: "pyval \<Rightarrow> string"
  strptime :: "string \<Rightarrow> string \<Rightarrow> exn + date"
  float_sum :: "pyfloat list \<Rightarrow> pyfloat"

section \<open>Structured-data locator\<close>

text \<open>
  \<open>ProductParser._find_product_json\<close> (src/parser/product_parser.py). Its argument is the
  list built by \<open>extract_json_ld_objects\<close>, which holds dictionaries only.
  \<open>"Product" in t\<close> compares with \<open>==\<close>, and only the string \<open>"Product"\<close> is equal to it.
\<close>

fun find_product_json :: "pydict list \<Rightarrow> pydict option" where
  "find_product_json [] = None"
| "find_product_json (obj # objs) =
     (case py_get obj ''@type'' of
        PList t \<Rightarrow> if PStr ''Product'' \<in> set t then Some obj else find_product_json objs
      | t \<Rightarrow> if t = PStr ''Product'' then Some obj else find_product_json objs)"

text \<open>
  \<open>_find_product_ld\<close> (src/extractors/product_parser.py). Its argument is the list of
  whole parsed blocks, of any JSON type; the inner loop runs over the items of a block
  that is a list.
\<close>

fun find_product_item :: "pyval list \<Rightarrow> pydict option" where
  "find_product_item [] = None"
| "find_product_item (item # items) =
     (case item of
        PDict d \<Rightarrow> if py_get d ''@type'' = PStr ''Product'' then Some d else find_product_item items
      | _ \<Rightarrow> find_product_item items)"

fun find_product_ld :: "pyval list \<Rightarrow> pydict option" where
  "find_product_ld [] = None"
| "find_product_ld (block # blocks) =
     (case block of
        PDict d \<Rightarrow> if py_get d ''@type'' = PStr ''Product'' then Some d else find_product_ld blocks
      | PList items \<Rightarrow>
          (case find_product_item items of
             Some d \<Rightarrow> Some d
           | None \<Rightarrow> find_product_ld blocks)
      | _ \<Rightarrow> find_product_ld blocks)"

text \<open>
  The specification's wording: the type tag of an object matches when it is the string
  \<open>"Product"\<close> or a list with that string among its members.
\<close>

definition type_tag_matches :: "pydict \<Rightarrow> bool" where
  "type_tag_matches obj =
     (case py_get obj ''@type'' of
        PList t \<Rightarrow> PStr ''Product'' \<in> set t
      | t \<Rightarrow> t = PStr ''Product'')"

section \<open>Binary64 arithmetic\<close>

text \<open>
  Every float operation of CPython returns the binary64 value nearest to the exact result,
  ties going to the even significand. \<open>round_binary64\<close> is that rounding for an unbounded
  exponent range above (53 significant bits, and multiples of \<open>2 ^ - 1074\<close> in the subnormal
  range); \<open>fl\<close> turns a result of magnitude \<open>2 ^ 1024\<close> or more into an infinity.
\<close>

fun bit_length :: "nat \<Rightarrow> nat" where
  "bit_length n = (if n = 0 then 0 else Suc (bit_length (n div 2)))"

declare bit_length.simps [simp del]

definition pow2 :: "int \<Rightarrow> rat" where
  "pow2 k = (if 0 \<le> k then 2 ^ nat k else 1 / 2 ^ nat (- k))"

text \<open>The integer \<open>e\<close> with \<open>2 ^ e \<le> q < 2 ^ (e + 1)\<close>, for \<open>q > 0\<close>.\<close>

definition adjust_log2 :: "rat \<Rightarrow> int \<Rightarrow> int" where
  "adjust_log2 q k = (if pow2 (k + 1) \<le> q then k + 1 else k)"

definition floor_log2 :: "rat \<Rightarrow> int" where
  "floor_log2 q =
     (if 1 \<le> q then int (bit_length (nat \<lfloor>q\<rfloor>)) - 1
      else adjust_log2 q (- int (bit_length (nat \<lfloor>1 / q\<rfloor>))))"

text \<open>The nearest integer, a tie going to the even one; \<open>f\<close> is the floor of \<open>x\<close>.\<close>

definition round_from_floor :: "rat \<Rightarrow> int \<Rightarrow> int" where
  "round_from_floor x f =
     (if x - of_int f < 1 / 2 then f
      else if 1 / 2 < x - of_int f then f + 1
      else if even f then f else f + 1)"

definition round_half_even :: "rat \<Rightarrow> int" where
  "round_half_even x = round_from_floor x \<lfloor>x\<rfloor>"

definition round_to_multiple :: "rat \<Rightarrow> rat \<Rightarrow> rat" where
  "round_to_multiple q u = of_int (round_half_even (q / u)) * u"

definition round_binary64 :: "rat \<Rightarrow> rat" where
  "round_binary64 q =
     (if q = 0 then 0
      else round_to_multiple q (pow2 (max (floor_log2 \<bar>q\<bar> - 52) (- 1074))))"

text \<open>A magnitude of \<open>2 ^ 1024\<close> or more lies beyond the largest binary64 value.\<close>

definition overflows :: "rat \<Rightarrow> bool" where
  "overflows r = ((2::int) ^ 1024 \<le> \<lfloor>\<bar>r\<bar>\<rfloor>)"

definition float_of_rounded :: "rat \<Rightarrow> pyfloat" where
  "float_of_rounded r = (if overflows r then (if 0 < r then PInf else NInf) else Fin r)"

definition fl :: "rat \<Rightarrow> pyfloat" where
  "fl q = float_of_rounded (round_binary64 q)"

fun fadd :: "pyfloat \<Rightarrow> pyfloat \<Rightarrow> pyfloat" where
  "fadd (Fin a) (Fin b) = fl (a + b)"
| "fadd NaN _ = NaN"
| "fadd _ NaN = NaN"
| "fadd PInf NInf = NaN"
| "fadd NInf PInf = NaN"
| "fadd PInf _ = PInf"
| "fadd _ PInf = PInf"
| "fadd NInf _ = NInf"
| "fadd _ NInf = NInf"

text \<open>The sign of a float: \<open>1\<close>, \<open>0\<close> or \<open>- 1\<close> (a NaN has none and is handled apart).\<close>

fun fsign :: "pyfloat \<Rightarrow> int" where
  "fsign (Fin a) = (if 0 < a then 1 else if a < 0 then - 1 else 0)"
| "fsign PInf = 1"
| "fsign NInf = - 1"
| "fsign NaN = 0"

fun fmul :: "pyfloat \<Rightarrow> pyfloat \<Rightarrow> pyfloat" where
  "fmul (Fin a) (Fin b) = fl (a * b)"
| "fmul NaN _ = NaN"
| "fmul _ NaN = NaN"
| "fmul x y =
     (let s = fsign x * fsign y in if s = 0 then NaN else if 0 < s then PInf else NInf)"

text \<open>
  \<open>x / y\<close> for a divisor that is a finite non-zero float (the divisors of this program
  are lengths and counts checked to be positive).
\<close>

fun fdiv_fin :: "pyfloat \<Rightarrow> rat \<Rightarrow> pyfloat" where
  "fdiv_fin (Fin a) b = fl (a / b)"
| "fdiv_fin NaN b = NaN"
| "fdiv_fin PInf b = (if 0 < b then PInf else NInf)"
| "fdiv_fin NInf b = (if 0 < b then NInf else PInf)"

text \<open>\<open>float(n)\<close> for an \<open>int\<close>: an integer beyond the binary64 range raises.\<close>

definition float_of_int :: "int \<Rightarrow> exn + pyfloat" where
  "float_of_int n = (case fl (of_int n) of Fin r \<Rightarrow> Inr (Fin r) | _ \<Rightarrow> Inl OverflowError)"

text \<open>\<open>int(x)\<close> for a float: truncation towards zero; infinities and NaN raise.\<close>

fun int_of_float :: "pyfloat \<Rightarrow> exn + int" where
  "int_of_float (Fin r) = Inr (if 0 \<le> r then \<lfloor>r\<rfloor> else \<lceil>r\<rceil>)"
| "int_of_float NaN = Inl ValueError"
| "int_of_float _ = Inl OverflowError"

text \<open>\<open>round(x)\<close> with one argument: the nearest integer, ties to even.\<close>

fun py_round :: "pyfloat \<Rightarrow> exn + int" where
  "py_round (Fin r) = Inr (round_half_even r)"
| "py_round NaN = Inl ValueError"
| "py_round _ = Inl OverflowError"

text \<open>
  \<open>round(x, 2)\<close>: the exact value of \<open>x\<close> is rounded to two decimals, ties to even, and
  the decimal is converted back to the nearest float.
\<close>

fun py_round2 :: "pyfloat \<Rightarrow> pyfloat" where
  "py_round2 (Fin r) = fl (of_int (round_half_even (r * 100)) / 100)"
| "py_round2 x = x"


section \<open>The built-in float() on strings\<close>

definition is_digit :: "char \<Rightarrow> bool" where
  "is_digit c = (let n = (of_char c :: nat) in 48 \<le> n \<and> n \<le> 57)"

definition digit_val :: "char \<Rightarrow> nat" where
  "digit_val c = of_char c - 48"

definition digits_val :: "string \<Rightarrow> nat" where
  "digits_val ds = foldl (\<lambda>a c. 10 * a + digit_val c) 0 ds"

text \<open>
  \<open>float\<close> turns the characters 133 and 160 into spaces and then drops the leading and
  trailing characters 9 to 13 and 32 (the codes 28 to 31 are no whitespace for it), and
  it reads \<open>inf\<close>, \<open>infinity\<close> and \<open>nan\<close> whatever the case of their ASCII letters.
\<close>

definition float_space :: "char \<Rightarrow> bool" where
  "float_space c =
     (let n = (of_char c :: nat) in (9 \<le> n \<and> n \<le> 13) \<or> n = 32 \<or> n = 133 \<or> n = 160)"

definition float_strip :: "string \<Rightarrow> string" where
  "float_strip s = rev (dropWhile float_space (rev (dropWhile float_space s)))"

definition ascii_lower_char :: "char \<Rightarrow> char" where
  "ascii_lower_char c =
     (let n = (of_char c :: nat) in if 65 \<le> n \<and> n \<le> 90 then char_of (n + 32) else c)"

definition ascii_lower :: "string \<Rightarrow> string" where
  "ascii_lower s = map ascii_lower_char s"

text \<open>\<open>digitpart\<close> of the language reference: digits, single underscores between them.\<close>

fun digitpart :: "string \<Rightarrow> bool" where
  "digitpart [] = False"
| "digitpart [c] = is_digit c"
| "digitpart (c # d # cs) =
     (is_digit c \<and> (if d = CHR ''_'' then digitpart cs else digitpart (d # cs)))"

definition no_underscores :: "string \<Rightarrow> string" where
  "no_underscores s = filter (\<lambda>c. c \<noteq> CHR ''_'') s"

text \<open>
  The mantissa \<open>[digitpart] "." digitpart | digitpart ["."]\<close>, as the exact rational it
  denotes.
\<close>

definition parse_mantissa :: "string \<Rightarrow> rat option" where
  "parse_mantissa m =
     (let ip = takeWhile (\<lambda>c. c \<noteq> CHR ''.'') m;
          rest = dropWhile (\<lambda>c. c \<noteq> CHR ''.'') m
      in if rest = [] then
           (if digitpart ip then Some (of_nat (digits_val (no_underscores ip))) else None)
         else
           (let fp = tl rest in
            if (ip = [] \<or> digitpart ip) \<and> (fp = [] \<or> digitpart fp) \<and> \<not> (ip = [] \<and> fp = [])
            then Some (of_nat (digits_val (no_underscores ip))
                       + of_nat (digits_val (no_underscores fp)) / 10 ^ length (no_underscores fp))
            else None))"

text \<open>The exponent \<open>("e" | "E") [sign] digitpart\<close>, given without its first letter.\<close>

definition parse_exponent :: "string \<Rightarrow> int option" where
  "parse_exponent x =
     (case x of
        [] \<Rightarrow> None
      | c # r \<Rightarrow>
          if c = CHR ''-'' then (if digitpart r then Some (- int (digits_val (no_underscores r))) else None)
          else if c = CHR ''+'' then (if digitpart r then Some (int (digits_val (no_underscores r))) else None)
          else (if digitpart x then Some (int (digits_val (no_underscores x))) else None))"

definition pow10 :: "int \<Rightarrow> rat" where
  "pow10 k = (if 0 \<le> k then 10 ^ nat k else 1 / 10 ^ nat (- k))"

definition is_exp_char :: "char \<Rightarrow> bool" where
  "is_exp_char c = (c = CHR ''e'' \<or> c = CHR ''E'')"

definition parse_floatnumber :: "string \<Rightarrow> rat option" where
  "parse_floatnumber body =
     (let m = takeWhile (\<lambda>c. \<not> is_exp_char c) body;
          rest = dropWhile (\<lambda>c. \<not> is_exp_char c) body
      in case parse_mantissa m of
           None \<Rightarrow> None
         | Some q \<Rightarrow>
             if rest = [] then Some q
             else (case parse_exponent (tl rest) of
                     None \<Rightarrow> None
                   | Some k \<Rightarrow> Some (q * pow10 k)))"

text \<open>
  \<open>float(s)\<close> for a string: the surrounding whitespace is dropped, a sign may come first,
  \<open>inf\<close>, \<open>infinity\<close> and \<open>nan\<close> are read in any case, and a decimal number is rounded to
  the nearest float. \<open>None\<close> stands for \<open>ValueError\<close>.
\<close>

definition py_float_of_str :: "string \<Rightarrow> pyfloat option" where
  "py_float_of_str s0 =
     (let s = float_strip s0;
          neg = (s \<noteq> [] \<and> hd s = CHR ''-'');
          body = (if s \<noteq> [] \<and> (hd s = CHR ''-'' \<or> hd s = CHR ''+'') then tl s else s);
          low = ascii_lower body
      in if low = ''inf'' \<or> low = ''infinity'' then Some (if neg then NInf else PInf)
         else if low = ''nan'' then Some NaN
         else (case parse_floatnumber body of
                 None \<Rightarrow> None
               | Some q \<Rightarrow> Some (fl (if neg then - q else q))))"

section \<open>Scalar normalizers (src/extractors/utils_format.py)\<close>

definition remove_commas :: "string \<Rightarrow> string" where
  "remove_commas s = filter (\<lambda>c. c \<noteq> CHR '','') s"

text \<open>
  \<open>parse_float(value, default)\<close>. \<open>isinstance(value, (int, float))\<close> holds for a
  \<open>bool\<close> too; \<open>float(value)\<close> of an \<open>int\<close> stands outside the \<open>try\<close>. The text
  \<open>str(value)\<close> of a list or of a dict starts with a bracket, which \<open>float\<close> rejects.
\<close>

fun parse_float :: "pyval \<Rightarrow> pyfloat \<Rightarrow> exn + pyfloat" where
  "parse_float PNone dflt = Inr dflt"
| "parse_float (PBool b) dflt = Inr (Fin (if b then 1 else 0))"
| "parse_float (PInt n) dflt = float_of_int n"
| "parse_float (PFloat x) dflt = Inr x"
| "parse_float (PStr s) dflt =
     (case py_float_of_str (remove_commas (strip s)) of
        None \<Rightarrow> Inr dflt
      | Some x \<Rightarrow> Inr x)"
| "parse_float (PList xs) dflt = Inr dflt"
| "parse_float (PDict d) dflt = Inr dflt"

text \<open>
  \<open>parse_int(value, default)\<close>: \<open>int(float(text))\<close> under
  \<open>except (TypeError, ValueError)\<close>. \<open>int\<close> of a NaN raises \<open>ValueError\<close>, which is
  caught; \<open>int\<close> of an infinity raises \<open>OverflowError\<close>, which is not. A \<open>bool\<close> is
  returned as it is and is used as the number 0 or 1.
\<close>

definition int_of_float_or :: "pyfloat \<Rightarrow> int \<Rightarrow> exn + int" where
  "int_of_float_or x dflt =
     (case int_of_float x of
        Inr n \<Rightarrow> Inr n
      | Inl e \<Rightarrow> if e = ValueError then Inr dflt else Inl e)"

fun parse_int :: "pyval \<Rightarrow> int \<Rightarrow> exn + int" where
  "parse_int PNone dflt = Inr dflt"
| "parse_int (PBool b) dflt = Inr (if b then 1 else 0)"
| "parse_int (PInt n) dflt = Inr n"
| "parse_int (PFloat x) dflt = int_of_float_or x dflt"
| "parse_int (PStr s) dflt =
     (case py_float_of_str (remove_commas (strip s)) of
        None \<Rightarrow> Inr dflt
      | Some x \<Rightarrow> int_of_float_or x dflt)"
| "parse_int (PList xs) dflt = Inr dflt"
| "parse_int (PDict d) dflt = Inr dflt"

text \<open>The built-in \<open>float(v)\<close> on a value.\<close>

fun py_float :: "pyval \<Rightarrow> exn + pyfloat" where
  "py_float (PBool b) = Inr (Fin (if b then 1 else 0))"
| "py_float (PInt n) = float_of_int n"
| "py_float (PFloat x) = Inr x"
| "py_float (PStr s) = (case py_float_of_str s of None \<Rightarrow> Inl ValueError | Some x \<Rightarrow> Inr x)"
| "py_float _ = Inl TypeError"

text \<open>\<open>x / n\<close> for a float \<open>x\<close> and an \<open>int\<close> \<open>n\<close>: \<open>n\<close> is converted to a float first.\<close>

definition fdiv_int :: "pyfloat \<Rightarrow> int \<Rightarrow> exn + pyfloat" where
  "fdiv_int x n =
     (case float_of_int n of
        Inl e \<Rightarrow> Inl e
      | Inr y \<Rightarrow> (case y of Fin b \<Rightarrow> if b = 0 then Inl ZeroDivisionError else Inr (fdiv_fin x b)
                 | _ \<Rightarrow> Inl OverflowError))"

definition fmul_int :: "pyfloat \<Rightarrow> int \<Rightarrow> exn + pyfloat" where
  "fmul_int x n = (case float_of_int n of Inl e \<Rightarrow> Inl e | Inr y \<Rightarrow> Inr (fmul x y))"

section \<open>Statistics from the review list (src/extractors/stats_extractor.py)\<close>

text \<open>The loop that collects \<open>float(rating)\<close> of the reviews with an int or float rating.\<close>

fun collect_ratings :: "pydict list \<Rightarrow> pyfloat list \<Rightarrow> exn + pyfloat list" where
  "collect_ratings [] ratings = Inr ratings"
| "collect_ratings (r # rs) ratings =
     (case py_get r ''rating'' of
        PInt n \<Rightarrow> (case float_of_int n of
                     Inl e \<Rightarrow> Inl e
                   | Inr x \<Rightarrow> collect_ratings rs (ratings @ [x]))
      | PBool b \<Rightarrow> collect_ratings rs (ratings @ [Fin (if b then 1 else 0)])
      | PFloat x \<Rightarrow> collect_ratings rs (ratings @ [x])
      | _ \<Rightarrow> collect_ratings rs ratings)"

definition build_statistics_from_reviews :: "pylib \<Rightarrow> pydict list \<Rightarrow> exn + pydict" where
  "build_statistics_from_reviews lib reviews =
     (let review_count = length reviews in
      if review_count = 0 then
        Inr [(''average_rating'', PNone),
             (''helpful_vote_count'', PNone),
             (''not_helpful_vote_count'', PNone),
             (''recommended_review_count'', PNone),
             (''review_count'', PInt 0)]
      else
        (case collect_ratings reviews [] of
           Inl e \<Rightarrow> Inl e
         | Inr ratings \<Rightarrow>
             (case (if ratings \<noteq> []
                    then map_sum id PFloat (fdiv_int (float_sum lib ratings) (int (length ratings)))
                    else Inr PNone) of
                Inl e \<Rightarrow> Inl e
              | Inr average_rating \<Rightarrow>
                  Inr [(''average_rating'', average_rating),
                       (''helpful_vote_count'', PNone),
                       (''not_helpful_vote_count'', PNone),
                       (''recommended_review_count'', PNone),
                       (''review_count'', PInt (int review_count))])))"

section \<open>Statistics from the page (src/extractors/product_parser.py)\<close>

text \<open>
  What \<open>parse_statistics\<close> reads from the parsed page: the stripped text of the element
  marked \<open>overall_rating\<close> and of the one marked \<open>total_reviews\<close> (when there is one), and
  for every row of the rating histogram the stripped texts of its \<open>span\<close> cells.
\<close>

record stats_page =
  overall_rating :: "string option"
  total_reviews :: "string option"
  histogram_rows :: "string list list"

text \<open>The loop over the histogram rows, carrying \<open>total_reviews\<close> and \<open>weighted_sum\<close>.\<close>

fun histogram_loop :: "string list list \<Rightarrow> int \<Rightarrow> pyfloat \<Rightarrow> exn + (int \<times> pyfloat)" where
  "histogram_loop [] total_count weighted_sum = Inr (total_count, weighted_sum)"
| "histogram_loop (cells # rows) total_count weighted_sum =
     (if length cells < 2 then histogram_loop rows total_count weighted_sum
      else
        (case parse_float (PStr (cells ! 0)) (Fin 0) of
           Inl e \<Rightarrow> Inl e
         | Inr rating_value \<Rightarrow>
             (case parse_int (PStr (cells ! 1)) 0 of
                Inl e \<Rightarrow> Inl e
              | Inr rating_count \<Rightarrow>
                  (case fmul_int rating_value rating_count of
                     Inl e \<Rightarrow> Inl e
                   | Inr w \<Rightarrow> histogram_loop rows (total_count + rating_count) (fadd weighted_sum w)))))"

text \<open>
  The loop over the reviews, carrying \<open>total_rating\<close>, \<open>helpful_vote_count\<close> and
  \<open>not_helpful_vote_count\<close>.
\<close>

fun reviews_loop ::
  "pydict list \<Rightarrow> pyfloat \<Rightarrow> int \<Rightarrow> int \<Rightarrow> exn + (pyfloat \<times> int \<times> int)" where
  "reviews_loop [] total_rating helpful not_helpful = Inr (total_rating, helpful, not_helpful)"
| "reviews_loop (r # rs) total_rating helpful not_helpful =
     (case py_float (py_or (py_get r ''rating'') (PInt 0)) of
        Inl e \<Rightarrow> Inl e
      | Inr x \<Rightarrow>
          (case parse_int (py_get r ''helpful_vote_count'') 0 of
             Inl e \<Rightarrow> Inl e
           | Inr h \<Rightarrow>
               (case parse_int (py_get r ''not_helpful_vote_count'') 0 of
                  Inl e \<Rightarrow> Inl e
                | Inr n \<Rightarrow> reviews_loop rs (fadd total_rating x) (helpful + h) (not_helpful + n))))"

definition statistics_record :: "pyfloat \<Rightarrow> int \<Rightarrow> int \<Rightarrow> int \<Rightarrow> pydict" where
  "statistics_record average_rating helpful not_helpful review_count =
     [(''average_rating'', PFloat (if average_rating \<noteq> Fin 0 then py_round2 average_rating else Fin 0)),
      (''helpful_vote_count'', PInt helpful),
      (''not_helpful_vote_count'', PInt not_helpful),
      (''review_count'', PInt review_count),
      (''variant_count'', PInt 0)]"

definition parse_statistics :: "stats_page \<Rightarrow> pydict list \<Rightarrow> exn + pydict" where
  "parse_statistics soup reviews =
     (case (case overall_rating soup of
              Some t \<Rightarrow> parse_float (PStr t) (Fin 0)
            | None \<Rightarrow> Inr (Fin 0)) of
        Inl e \<Rightarrow> Inl e
      | Inr average_rating0 \<Rightarrow>
     (case (case total_reviews soup of
              Some t \<Rightarrow> parse_int (PStr t) 0
            | None \<Rightarrow> Inr 0) of
        Inl e \<Rightarrow> Inl e
      | Inr review_count0 \<Rightarrow>
          if reviews = [] then
            (if histogram_rows soup \<noteq> [] then
               (case histogram_loop (histogram_rows soup) 0 (Fin 0) of
                  Inl e \<Rightarrow> Inl e
                | Inr (total_count, weighted_sum) \<Rightarrow>
                    if 0 < total_count then
                      (case fdiv_int weighted_sum total_count of
                         Inl e \<Rightarrow> Inl e
                       | Inr average_rating \<Rightarrow> Inr (statistics_record average_rating 0 0 total_count))
                    else Inr (statistics_record average_rating0 0 0 review_count0))
             else Inr (statistics_record average_rating0 0 0 review_count0))
          else
            (case reviews_loop reviews (Fin 0) 0 0 of
               Inl e \<Rightarrow> Inl e
             | Inr (total_rating, helpful, not_helpful) \<Rightarrow>
                 (case fdiv_int total_rating (int (length reviews)) of
                    Inl e \<Rightarrow> Inl e
                  | Inr average_rating \<Rightarrow>
                      Inr (statistics_record average_rating helpful not_helpful
                             (int (length reviews)))))))"

section \<open>The specification's notions for the statistics\<close>




definition no_summary_page :: stats_page where
  "no_summary_page = \<lparr>overall_rating = None, total_reviews = None, histogram_rows = []\<rparr>"

section \<open>Scanning the structured-metadata blocks\<close>

text \<open>
  A page is seen through the \<open>script\<close> elements of type \<open>application/ld+json\<close> that
  \<open>find_all\<close> returns, each given by its \<open>.string\<close> (\<open>None\<close> when the element has no
  single text child).

  \<open>extract_json_ld_objects\<close> (src/utils/html_utils.py): the first \<open>json.loads\<close> stands
  under \<open>except json.JSONDecodeError\<close>, the second one under \<open>except Exception\<close>.
\<close>

fun dict_items :: "pyval list \<Rightarrow> pydict list" where
  "dict_items [] = []"
| "dict_items (PDict d # items) = d # dict_items items"
| "dict_items (_ # items) = dict_items items"

fun objects_of :: "pyval \<Rightarrow> pydict list" where
  "objects_of (PList items) = dict_items items"
| "objects_of (PDict d) = [d]"
| "objects_of _ = []"

fun extract_json_ld_objects :: "pylib \<Rightarrow> string option list \<Rightarrow> pydict list \<Rightarrow> exn + pydict list" where
  "extract_json_ld_objects lib [] results = Inr results"
| "extract_json_ld_objects lib (script # scripts) results =
     (case script of
        None \<Rightarrow> extract_json_ld_objects lib scripts results
      | Some text \<Rightarrow>
          if text = [] then extract_json_ld_objects lib scripts results
          else
            (let raw = strip text in
             if raw = [] then extract_json_ld_objects lib scripts results
             else
               (case json_loads lib raw of
                  Inr data \<Rightarrow> extract_json_ld_objects lib scripts (results @ objects_of data)
                | Inl e \<Rightarrow>
                    if e = JSONDecodeError then
                      (case json_loads lib (''['' @ raw @ '']'') of
                         Inr data \<Rightarrow> extract_json_ld_objects lib scripts (results @ objects_of data)
                       | Inl e' \<Rightarrow> extract_json_ld_objects lib scripts results)
                    else Inl e)))"

text \<open>
  \<open>_extract_ld_json_blocks\<close> (src/extractors/product_parser.py): one \<open>json.loads\<close> of
  the unstripped text under \<open>except json.JSONDecodeError\<close>; the parsed value is appended
  whole.
\<close>

fun extract_ld_json_blocks :: "pylib \<Rightarrow> string option list \<Rightarrow> pyval list \<Rightarrow> exn + pyval list" where
  "extract_ld_json_blocks lib [] blocks = Inr blocks"
| "extract_ld_json_blocks lib (script # scripts) blocks =
     (case script of
        None \<Rightarrow> extract_ld_json_blocks lib scripts blocks
      | Some text \<Rightarrow>
          if text = [] then extract_ld_json_blocks lib scripts blocks
          else
            (case json_loads lib text of
               Inr data \<Rightarrow> extract_ld_json_blocks lib scripts (blocks @ [data])
             | Inl e \<Rightarrow>
                 if e = JSONDecodeError then extract_ld_json_blocks lib scripts blocks
                 else Inl e))"

text \<open>
  A library instance for the examples: \<open>json.loads\<close> on the texts the examples use
  (two sibling objects separated by a comma are malformed; in brackets they are a list),
  \<open>strptime\<close> on the one date text they use, and \<open>sum\<close> as addition from the left
  (every \<open>sum\<close> of the examples is exact, so that compensation changes nothing).
\<close>

definition sample_loads :: "string \<Rightarrow> exn + pyval" where
  "sample_loads text =
     (if text = ''{}'' then Inr (PDict [])
      else if text = ''[{},{}]'' then Inr (PList [PDict [], PDict []])
      else Inl JSONDecodeError)"

definition sample_strptime :: "string \<Rightarrow> string \<Rightarrow> exn + date" where
  "sample_strptime text fmt =
     (if text = ''January 5, 2024'' \<and> fmt = ''%B %d, %Y''
      then Inr \<lparr>year = 2024, month = 1, day = 5\<rparr>
      else Inl ValueError)"

definition sample_lib :: pylib where
  "sample_lib =
     \<lparr>json_loads = sample_loads, py_repr = (\<lambda>v. []), strptime = sample_strptime,
      float_sum = foldl fadd (Fin 0)\<rparr>"

section \<open>Text formatting\<close>

text \<open>\<open>str.split()\<close> with no argument: the maximal runs of non-whitespace characters.\<close>

fun split_words :: "string \<Rightarrow> string \<Rightarrow> string list" where
  "split_words [] w = (if w = [] then [] else [w])"
| "split_words (c # cs) w =
     (if py_isspace c then (if w = [] then split_words cs [] else w # split_words cs [])
      else split_words cs (w @ [c]))"

definition py_split :: "string \<Rightarrow> string list" where
  "py_split s = split_words s []"

fun join_spaces :: "string list \<Rightarrow> string" where
  "join_spaces [] = []"
| "join_spaces [w] = w"
| "join_spaces (w # v # ws) = w @ '' '' @ join_spaces (v # ws)"

text \<open>
  \<open>clean_text\<close> (src/extractors/utils_format.py): a falsy value gives the empty string, a
  string is split and joined, and any other value has no \<open>split\<close> method.
\<close>

definition clean_text :: "pyval \<Rightarrow> exn + string" where
  "clean_text v =
     (if \<not> truthy v then Inr []
      else (case v of PStr s \<Rightarrow> Inr (join_spaces (py_split s)) | _ \<Rightarrow> Inl AttributeError))"

text \<open>The decimal digits of a number, as \<open>str()\<close> and f-strings print an \<open>int\<close>.\<close>

fun str_of_nat :: "nat \<Rightarrow> string" where
  "str_of_nat n =
     (if n < 10 then [char_of (48 + n)]
      else str_of_nat (n div 10) @ [char_of (48 + n mod 10)])"

declare str_of_nat.simps [simp del]

definition str_of_int :: "int \<Rightarrow> string" where
  "str_of_int k = (if k < 0 then CHR ''-'' # str_of_nat (nat (- k)) else str_of_nat (nat k))"

text \<open>\<open>str(v)\<close>; for a float, a list or a dict it is the library's \<open>repr\<close>.\<close>

fun py_str :: "pylib \<Rightarrow> pyval \<Rightarrow> string" where
  "py_str lib PNone = ''None''"
| "py_str lib (PBool b) = (if b then ''True'' else ''False'')"
| "py_str lib (PInt k) = str_of_int k"
| "py_str lib (PStr s) = s"
| "py_str lib v = py_repr lib v"

text \<open>\<open>sub in s\<close> for two strings.\<close>

fun starts_with :: "string \<Rightarrow> string \<Rightarrow> bool" where
  "starts_with s [] = True"
| "starts_with [] (p # ps) = False"
| "starts_with (c # cs) (p # ps) = (c = p \<and> starts_with cs ps)"

fun contains :: "string \<Rightarrow> string \<Rightarrow> bool" where
  "contains [] sub = (sub = [])"
| "contains (c # cs) sub = (starts_with (c # cs) sub \<or> contains cs sub)"

section \<open>Variants from the page (src/extractors/product_parser.py)\<close>

text \<open>One dictionary entry \<open>v\<close> of the variant-or-offer list, at index \<open>idx\<close>.\<close>

definition ld_variant :: "pylib \<Rightarrow> nat \<Rightarrow> pydict \<Rightarrow> exn + pydict" where
  "ld_variant lib idx v =
     (let variant_id = py_or (py_or (py_get v ''sku'') (py_get v ''productID''))
                         (PStr (''variant-'' @ str_of_nat idx));
          variant_name = py_or (py_or (py_get v ''name'') (py_get v ''description'')) (PStr []);
          variant_image = py_or (py_get v ''image'') (PStr []);
          availability_raw = py_or (py_get v ''availability'') (py_get v ''itemCondition'');
          is_available = (case availability_raw of
                            PStr a \<Rightarrow> \<not> contains a ''OutOfStock''
                          | _ \<Rightarrow> True)
      in case clean_text variant_name of
           Inl e \<Rightarrow> Inl e
         | Inr name \<Rightarrow>
             Inr [(''variant_id'', PStr (py_str lib variant_id)),
                  (''variant_description'', PStr name),
                  (''is_variant_available'', PBool is_available),
                  (''variant_name'', PStr name),
                  (''variant_image'', variant_image)])"

text \<open>The loop \<open>for idx, v in enumerate(variants_ld)\<close>; an entry that is no dict is passed over.\<close>

fun ld_variants_loop :: "pylib \<Rightarrow> nat \<Rightarrow> pyval list \<Rightarrow> pydict list \<Rightarrow> exn + pydict list" where
  "ld_variants_loop lib idx [] variants = Inr variants"
| "ld_variants_loop lib idx (v # vs) variants =
     (case v of
        PDict d \<Rightarrow>
          (case ld_variant lib idx d of
             Inl e \<Rightarrow> Inl e
           | Inr variant \<Rightarrow> ld_variants_loop lib (Suc idx) vs (variants @ [variant]))
      | _ \<Rightarrow> ld_variants_loop lib (Suc idx) vs variants)"

text \<open>
  A variant tile of the page, as the fallback reads it: the stripped text of the element
  marked \<open>sku_name\<close> or else of the first \<open>span\<close> (when there is one), the \<open>src\<close> of the
  first \<open>img\<close> (when there is one and it has a \<open>src\<close>), and whether an element marked
  \<open>out_of_stock\<close> is inside.
\<close>

record variant_tile =
  tile_name :: "string option"
  tile_img_src :: "string option"
  tile_out_of_stock :: bool

definition tile_variant :: "nat \<Rightarrow> variant_tile \<Rightarrow> pydict" where
  "tile_variant idx tile =
     (let variant_name = (case tile_name tile of
                            Some t \<Rightarrow> join_spaces (py_split t)
                          | None \<Rightarrow> ''Variant '' @ str_of_nat (idx + 1));
          variant_image = (case tile_img_src tile of Some src \<Rightarrow> src | None \<Rightarrow> [])
      in [(''variant_id'', PStr (''variant-'' @ str_of_nat idx)),
          (''variant_description'', PStr variant_name),
          (''is_variant_available'', PBool (\<not> tile_out_of_stock tile)),
          (''variant_name'', PStr variant_name),
          (''variant_image'', PStr variant_image)])"

fun tile_variants_loop :: "nat \<Rightarrow> variant_tile list \<Rightarrow> pydict list \<Rightarrow> pydict list" where
  "tile_variants_loop idx [] variants = variants"
| "tile_variants_loop idx (tile # tiles) variants =
     tile_variants_loop (Suc idx) tiles (variants @ [tile_variant idx tile])"

record product_page =
  ld_scripts :: "string option list"
  variant_tiles :: "variant_tile list"

definition parse_product_variants :: "pylib \<Rightarrow> product_page \<Rightarrow> exn + pydict list" where
  "parse_product_variants lib soup =
     (case extract_ld_json_blocks lib (ld_scripts soup) [] of
        Inl e \<Rightarrow> Inl e
      | Inr ld_blocks \<Rightarrow>
          (case (case find_product_ld ld_blocks of
                   None \<Rightarrow> Inr []
                 | Some product_ld \<Rightarrow>
                     if product_ld = [] then Inr []
                     else (case py_or (py_get product_ld ''isVariantOf'') (py_get product_ld ''offers'') of
                             PList variants_ld \<Rightarrow> ld_variants_loop lib 0 variants_ld []
                           | _ \<Rightarrow> Inr [])) of
             Inl e \<Rightarrow> Inl e
           | Inr variants \<Rightarrow>
               if variants \<noteq> [] then Inr variants
               else Inr (tile_variants_loop 0 (variant_tiles soup) [])))"

section \<open>Variants from the metadata object (src/parser/product_parser.py)\<close>

record ProductVariant =
  variant_id :: pyval
  variant_description :: pyval
  is_variant_available :: "bool option"
  variant_name :: pyval
  variant_image :: pyval

definition is_offer_available :: "pydict \<Rightarrow> bool option" where
  "is_offer_available offer =
     (case py_get offer ''availability'' of
        PStr availability \<Rightarrow>
          (let avail_lower = py_lower availability in
           if contains avail_lower ''instock'' \<or> contains avail_lower ''in stock'' then Some True
           else if contains avail_lower ''outofstock'' \<or> contains avail_lower ''out of stock''
           then Some False
           else None)
      | _ \<Rightarrow> None)"

text \<open>
  The value built for one offer. \<open>str(... or "") or None\<close>: an empty text becomes
  \<open>None\<close>.
\<close>

definition offer_variant :: "pylib \<Rightarrow> pydict \<Rightarrow> ProductVariant" where
  "offer_variant lib offer =
     (let s = py_str lib (py_or (py_or (py_get offer ''sku'') (py_get offer ''productID'')) (PStr []))
      in \<lparr>variant_id = (if s = [] then PNone else PStr s),
          variant_description = py_get offer ''description'',
          is_variant_available = is_offer_available offer,
          variant_name = py_get offer ''name'',
          variant_image = py_get offer ''image''\<rparr>)"

text \<open>The loop over a list of offers: \<open>offer.get\<close> raises on an entry that is no dict.\<close>

fun offers_loop :: "pylib \<Rightarrow> pyval list \<Rightarrow> ProductVariant list \<Rightarrow> exn + ProductVariant list" where
  "offers_loop lib [] variants = Inr variants"
| "offers_loop lib (offer # offers) variants =
     (case offer of
        PDict d \<Rightarrow> offers_loop lib offers (variants @ [offer_variant lib d])
      | _ \<Rightarrow> Inl AttributeError)"

definition build_variants :: "pylib \<Rightarrow> pydict option \<Rightarrow> exn + ProductVariant list" where
  "build_variants lib product_json =
     (case product_json of
        None \<Rightarrow> Inr []
      | Some pj \<Rightarrow>
          if pj = [] then Inr []
          else (case py_get pj ''offers'' of
                  PList offers \<Rightarrow> offers_loop lib offers []
                | PDict offers \<Rightarrow> Inr [offer_variant lib offers]
                | _ \<Rightarrow> Inr []))"

text \<open>
  The specification's wording: the first of sku and productID that is present (a value
  that counts as true), as text.
\<close>

definition upstream_id :: "pylib \<Rightarrow> pydict \<Rightarrow> string option" where
  "upstream_id lib v =
     (if truthy (py_get v ''sku'') then Some (py_str lib (py_get v ''sku''))
      else if truthy (py_get v ''productID'') then Some (py_str lib (py_get v ''productID''))
      else None)"

text \<open>The dictionary entries of a list with their positions, counted from \<open>k\<close>.\<close>

fun indexed_dicts :: "nat \<Rightarrow> pyval list \<Rightarrow> (nat \<times> pydict) list" where
  "indexed_dicts k [] = []"
| "indexed_dicts k (PDict d # vs) = (k, d) # indexed_dicts (Suc k) vs"
| "indexed_dicts k (_ # vs) = indexed_dicts (Suc k) vs"

definition text_or_absent :: "pyval \<Rightarrow> bool" where
  "text_or_absent v = (case v of PNone \<Rightarrow> True | PStr s \<Rightarrow> True | _ \<Rightarrow> False)"

definition id_or_placeholder :: "pylib \<Rightarrow> nat \<Rightarrow> pydict \<Rightarrow> string" where
  "id_or_placeholder lib i d =
     (case upstream_id lib d of Some s \<Rightarrow> s | None \<Rightarrow> ''variant-'' @ str_of_nat i)"

section \<open>Product info from the metadata object (src/parser/product_parser.py)\<close>

text \<open>
  What \<open>_build_product_info\<close> reads from the parsed page: for each \<open>meta\<close> lookup the
  \<open>content\<close> attribute of the first matching tag (\<open>None\<close> when there is no such tag or it
  has no \<open>content\<close>), and the visible text of the page.
\<close>

record meta_page =
  og_title :: "string option"
  meta_title :: "string option"
  og_image :: "string option"
  meta_description :: "string option"
  twitter_data2 :: "string option"
  og_site_name :: "string option"
  body_text :: string

text \<open>\<open>extract_meta_tag\<close> (src/utils/html_utils.py), given the \<open>content\<close> of the tag found.\<close>

definition extract_meta_tag :: "string option \<Rightarrow> pyval" where
  "extract_meta_tag content =
     (case content of
        None \<Rightarrow> PNone
      | Some c \<Rightarrow> if c \<noteq> [] then PStr (strip c) else PNone)"

text \<open>\<open>extract_numeric_from_text\<close>: the first match of \<open>[\d,.]+\<close>.\<close>

definition is_numeric_char :: "char \<Rightarrow> bool" where
  "is_numeric_char c = (is_digit c \<or> c = CHR '','' \<or> c = CHR ''.'')"

definition extract_numeric_from_text :: "pyval \<Rightarrow> pyval" where
  "extract_numeric_from_text v =
     (case v of
        PStr s \<Rightarrow>
          (let found = takeWhile is_numeric_char (dropWhile (\<lambda>c. \<not> is_numeric_char c) s)
           in if found = [] then PNone else PStr found)
      | _ \<Rightarrow> PNone)"

text \<open>\<open>re.search(r"/(P\d+)", source_url)\<close>: the group of the leftmost match.\<close>

fun search_product_id :: "string \<Rightarrow> string option" where
  "search_product_id [] = None"
| "search_product_id (c # cs) =
     (if c = CHR ''/'' \<and> cs \<noteq> [] \<and> hd cs = CHR ''P'' \<and> takeWhile is_digit (tl cs) \<noteq> []
      then Some (CHR ''P'' # takeWhile is_digit (tl cs))
      else search_product_id cs)"

record ProductInfo =
  info_id :: pyval
  info_name :: pyval
  info_image :: pyval
  info_description :: pyval
  info_is_available :: pyval
  info_brand :: pyval
  info_price :: pyval
  info_love_count :: pyval

text \<open>The part of \<open>_build_product_info\<close> that reads the metadata object.\<close>

definition info_from_json :: "pylib \<Rightarrow> pydict \<Rightarrow> ProductInfo" where
  "info_from_json lib product_json =
     \<lparr>info_id = py_or (py_get product_json ''sku'') (py_get product_json ''productID''),
      info_name = py_get product_json ''name'',
      info_image = PNone,
      info_description =
        (case py_get product_json ''description'' of PStr desc \<Rightarrow> PStr (strip desc) | _ \<Rightarrow> PNone),
      info_is_available =
        (case py_get product_json ''offers'' of
           PDict offers \<Rightarrow>
             (case py_get offers ''availability'' of
                PStr availability \<Rightarrow>
                  PBool (contains availability ''InStock''
                         \<or> contains (py_lower availability) ''instock'')
              | _ \<Rightarrow> PNone)
         | _ \<Rightarrow> PNone),
      info_brand =
        (case py_get product_json ''brand'' of
           PDict brand \<Rightarrow> py_get brand ''name''
         | PStr brand \<Rightarrow> PStr brand
         | _ \<Rightarrow> PNone),
      info_price =
        (case py_get product_json ''offers'' of
           PDict offers \<Rightarrow>
             (let price = py_get offers ''price''; currency = py_get offers ''priceCurrency'' in
              if truthy price then
                (if truthy currency
                 then PStr (strip (py_str lib price @ '' '' @ py_str lib currency))
                 else PStr (py_str lib price))
              else PNone)
         | _ \<Rightarrow> PNone),
      info_love_count = PNone\<rparr>"

definition empty_info :: ProductInfo where
  "empty_info =
     \<lparr>info_id = PNone, info_name = PNone, info_image = PNone, info_description = PNone,
      info_is_available = PNone, info_brand = PNone, info_price = PNone,
      info_love_count = PNone\<rparr>"

definition build_product_info :: "pylib \<Rightarrow> meta_page \<Rightarrow> pydict option \<Rightarrow> string \<Rightarrow> ProductInfo" where
  "build_product_info lib soup product_json source_url =
     (let info = (case product_json of
                    None \<Rightarrow> empty_info
                  | Some pj \<Rightarrow> if pj = [] then empty_info else info_from_json lib pj);
          info = (if \<not> truthy (info_name info)
                  then info\<lparr>info_name := py_or (extract_meta_tag (og_title soup))
                                               (extract_meta_tag (meta_title soup))\<rparr>
                  else info);
          info = (if \<not> truthy (info_image info)
                  then info\<lparr>info_image := extract_meta_tag (og_image soup)\<rparr>
                  else info);
          info = (if \<not> truthy (info_description info)
                  then info\<lparr>info_description := extract_meta_tag (meta_description soup)\<rparr>
                  else info);
          love_number = extract_numeric_from_text
                          (py_or (extract_meta_tag (twitter_data2 soup)) (PStr []));
          info = (if truthy love_number then info\<lparr>info_love_count := love_number\<rparr> else info);
          info = (if info_is_available info = PNone
                  then info\<lparr>info_is_available :=
                         PBool (\<not> (contains (py_lower (body_text soup)) ''out of stock''
                                   \<or> contains (py_lower (body_text soup)) ''sold out''))\<rparr>
                  else info);
          info = (if \<not> truthy (info_id info)
                  then (case search_product_id source_url of
                          Some pid \<Rightarrow> info\<lparr>info_id := PStr pid\<rparr>
                        | None \<Rightarrow> info)
                  else info)
      in if \<not> truthy (info_brand info)
         then info\<lparr>info_brand := py_or (extract_meta_tag (og_site_name soup)) (PStr ''Sephora'')\<rparr>
         else info)"

text \<open>
  The specification's wording: the brand the metadata object gives, when it gives one
  (a value that counts as true).
\<close>

definition metadata_brand :: "pydict option \<Rightarrow> pyval" where
  "metadata_brand product_json =
     (case product_json of
        None \<Rightarrow> PNone
      | Some pj \<Rightarrow>
          (case py_get pj ''brand'' of
             PDict brand \<Rightarrow> py_get brand ''name''
           | PStr brand \<Rightarrow> PStr brand
           | _ \<Rightarrow> PNone))"

definition is_nonempty_text :: "pyval \<Rightarrow> bool" where
  "is_nonempty_text v = (case v of PStr s \<Rightarrow> s \<noteq> [] | _ \<Rightarrow> False)"

definition no_meta_page :: meta_page where
  "no_meta_page =
     \<lparr>og_title = None, meta_title = None, og_image = None, meta_description = None,
      twitter_data2 = None, og_site_name = None, body_text = []\<rparr>"

section \<open>Date normalization (src/extractors/reviews_parser.py, questions_parser.py)\<close>

text \<open>
  \<open>datetime.isoformat()\<close> of the value \<open>strptime\<close> returns for a format with no time
  fields: the date with a zero time.
\<close>

definition zero_pad :: "nat \<Rightarrow> string \<Rightarrow> string" where
  "zero_pad k s = replicate (k - length s) (CHR ''0'') @ s"

definition isoformat :: "date \<Rightarrow> string" where
  "isoformat dt =
     zero_pad 4 (str_of_nat (year dt)) @ ''-'' @ zero_pad 2 (str_of_nat (month dt)) @ ''-''
     @ zero_pad 2 (str_of_nat (day dt)) @ ''T00:00:00''"

text \<open>The loop \<open>for fmt in formats\<close> with its \<open>except ValueError: continue\<close>.\<close>

fun try_formats :: "pylib \<Rightarrow> string \<Rightarrow> string list \<Rightarrow> exn + string option" where
  "try_formats lib text [] = Inr None"
| "try_formats lib text (fmt # fmts) =
     (case strptime lib text fmt of
        Inr dt \<Rightarrow> Inr (Some (isoformat dt))
      | Inl e \<Rightarrow> if e = ValueError then try_formats lib text fmts else Inl e)"

definition normalize_date :: "pylib \<Rightarrow> string \<Rightarrow> exn + string option" where
  "normalize_date lib text = try_formats lib text [''%b %d, %Y'', ''%B %d, %Y'', ''%Y-%m-%d'']"

definition normalize_question_date :: "pylib \<Rightarrow> string \<Rightarrow> exn + string option" where
  "normalize_question_date lib text =
     try_formats lib text [''%b %d, %Y'', ''%B %d, %Y'', ''%Y-%m-%d'']"

text \<open>
  The specification's notions: the first of the three formats that parses the text, and
  the calendar date an ISO-8601 text \<open>YYYY-MM-DDT...\<close> denotes.
\<close>

definition first_parse :: "pylib \<Rightarrow> string \<Rightarrow> date option" where
  "first_parse lib text =
     (case strptime lib text ''%b %d, %Y'' of
        Inr dt \<Rightarrow> Some dt
      | Inl _ \<Rightarrow>
          (case strptime lib text ''%B %d, %Y'' of
             Inr dt \<Rightarrow> Some dt
           | Inl _ \<Rightarrow>
               (case strptime lib text ''%Y-%m-%d'' of
                  Inr dt \<Rightarrow> Some dt
                | Inl _ \<Rightarrow> None)))"

definition date_of_iso :: "string \<Rightarrow> date" where
  "date_of_iso s =
     \<lparr>year = digits_val (take 4 s),
      month = digits_val (take 2 (drop 5 s)),
      day = digits_val (take 2 (drop 8 s))\<rparr>"

definition raises_only_value_error :: "pylib \<Rightarrow> string \<Rightarrow> bool" where
  "raises_only_value_error lib text =
     (strptime lib text ''%b %d, %Y'' \<in> range Inr \<union> {Inl ValueError}
      \<and> strptime lib text ''%B %d, %Y'' \<in> range Inr \<union> {Inl ValueError}
      \<and> strptime lib text ''%Y-%m-%d'' \<in> range Inr \<union> {Inl ValueError})"

section \<open>The per-URL loops of the two orchestrators (src/main.py, src/runner.py)\<close>

text \<open>
  The collaborators of the loops are parameters: the transport (\<open>fetch_html\<close> returns the
  page text or \<open>None\<close>), the processing of one fetched page (\<open>parse_product\<close>, which may
  raise any exception of an extractor), and the discovery of similar products.
\<close>

record crawl_env =
  fetch_html :: "string \<Rightarrow> string option"
  parse_product :: "string \<Rightarrow> string \<Rightarrow> exn + pydict"
  extract_similar_product_links :: "string \<Rightarrow> string \<Rightarrow> exn + string list"

record main_state =
  all_products :: "pydict list"
  processed_product_urls :: "string set"
  product_urls :: "string list"

text \<open>The inner loop that queues the similar links not yet processed.\<close>

fun queue_similar :: "string list \<Rightarrow> main_state \<Rightarrow> main_state" where
  "queue_similar [] st = st"
| "queue_similar (s_url # links) st =
     queue_similar links
       (if s_url \<notin> processed_product_urls st
        then st\<lparr>product_urls := product_urls st @ [s_url]\<rparr>
        else st)"

text \<open>
  One pass of the body of \<open>for url in product_urls\<close> in src/main.py. Both \<open>try\<close> blocks
  end in \<open>except Exception\<close>; the first handler ends in \<open>continue\<close>.
\<close>

definition main_step :: "crawl_env \<Rightarrow> bool \<Rightarrow> main_state \<Rightarrow> string \<Rightarrow> exn + main_state" where
  "main_step env include_similar st url =
     (if url \<in> processed_product_urls st then Inr st
      else
        (case fetch_html env url of
           None \<Rightarrow> Inr st
         | Some html \<Rightarrow>
             if html = [] then Inr st
             else
               (case parse_product env html url of
                  Inl e \<Rightarrow> Inr st
                | Inr product_record \<Rightarrow>
                    (let st1 = (if product_record \<noteq> []
                                then st\<lparr>all_products := all_products st @ [product_record],
                                        processed_product_urls :=
                                          insert url (processed_product_urls st)\<rparr>
                                else st)
                     in if include_similar then
                          (case extract_similar_product_links env html url of
                             Inl e \<Rightarrow> Inr st1
                           | Inr similar_links \<Rightarrow> Inr (queue_similar similar_links st1))
                        else Inr st1))))"

text \<open>
  The loop itself. The list it runs over grows while it runs when similar products are
  included, so the loop need not end: \<open>None\<close> is the result when the fuel is used up.
\<close>

fun main_loop :: "crawl_env \<Rightarrow> bool \<Rightarrow> nat \<Rightarrow> nat \<Rightarrow> main_state \<Rightarrow> (exn + main_state) option" where
  "main_loop env include_similar 0 i st = None"
| "main_loop env include_similar (Suc fuel) i st =
     (if i < length (product_urls st) then
        (case main_step env include_similar st (product_urls st ! i) of
           Inl e \<Rightarrow> Some (Inl e)
         | Inr st' \<Rightarrow> main_loop env include_similar fuel (Suc i) st')
      else Some (Inr st))"

text \<open>
  \<open>process_product\<close> of src/runner.py: only the fetch is guarded (inside \<open>fetch_html\<close>);
  the extractors run outside any \<open>try\<close>.
\<close>

definition process_product :: "crawl_env \<Rightarrow> string \<Rightarrow> exn + pydict option" where
  "process_product env url0 =
     (let url = normalize_url url0 in
      case fetch_html env url of
        None \<Rightarrow> Inr None
      | Some html \<Rightarrow>
          if html = [] then Inr None
          else (case parse_product env html url of
                  Inl e \<Rightarrow> Inl e
                | Inr product_payload \<Rightarrow> Inr (Some product_payload)))"

text \<open>The loop \<open>for url in unique_product_urls\<close> of src/runner.py: no \<open>try\<close> at all.\<close>

fun runner_loop :: "crawl_env \<Rightarrow> string list \<Rightarrow> pydict list \<Rightarrow> exn + pydict list" where
  "runner_loop env [] dataset = Inr dataset"
| "runner_loop env (url # urls) dataset =
     (case process_product env url of
        Inl e \<Rightarrow> Inl e
      | Inr product_data \<Rightarrow>
          (case product_data of
             None \<Rightarrow> runner_loop env urls dataset
           | Some d \<Rightarrow>
               if d \<noteq> [] then runner_loop env urls (dataset @ [d])
               else runner_loop env urls dataset))"

text \<open>
  An environment for the examples: every page is fetched, and processing the page of
  \<open>u1\<close> raises (as \<open>clean_text\<close> does on a name that is a list).
\<close>

definition sample_env :: crawl_env where
  "sample_env =
     \<lparr>fetch_html = (\<lambda>url. Some ''<html></html>''),
      parse_product = (\<lambda>html url. if url = ''u1'' then Inl AttributeError
                                    else Inr [(''source'', PStr url)]),
      extract_similar_product_links = (\<lambda>html url. Inr [])\<rparr>"

section \<open>Popularity counts (src/extractors/utils_format.py)\<close>

text \<open>
  \<open>NUMBER_WITH_SUFFIX_RE.match(text)\<close> for the pattern
  \<open>^\s*([\d.,]+)\s*([kKmM]?)\s*$\<close>. The three character classes are disjoint, so the
  greedy match is the only one; the result is the two groups.
\<close>

definition is_suffix_char :: "char \<Rightarrow> bool" where
  "is_suffix_char c = (c = CHR ''k'' \<or> c = CHR ''K'' \<or> c = CHR ''m'' \<or> c = CHR ''M'')"

definition take_suffix :: "string \<Rightarrow> string" where
  "take_suffix t = (case t of [] \<Rightarrow> [] | c # cs \<Rightarrow> if is_suffix_char c then [c] else [])"

definition match_number_with_suffix :: "string \<Rightarrow> (string \<times> string) option" where
  "match_number_with_suffix text =
     (let t1 = dropWhile py_isspace text;
          number_str = takeWhile is_numeric_char t1;
          t2 = dropWhile py_isspace (dropWhile is_numeric_char t1);
          suffix = take_suffix t2;
          t3 = dropWhile py_isspace (drop (length suffix) t2)
      in if number_str \<noteq> [] \<and> t3 = [] then Some (number_str, suffix) else None)"

text \<open>\<open>value *= 1_000\<close> and \<open>value *= 1_000_000\<close>, by the lower-cased suffix.\<close>

definition scale_by_suffix :: "pyfloat \<Rightarrow> string \<Rightarrow> pyfloat" where
  "scale_by_suffix v suffix =
     (if py_lower suffix = ''k'' then fmul v (Fin 1000)
      else if py_lower suffix = ''m'' then fmul v (Fin 1000000)
      else v)"

definition parse_number_with_suffix :: "string option \<Rightarrow> int \<Rightarrow> exn + int" where
  "parse_number_with_suffix text dflt =
     (case text of
        None \<Rightarrow> Inr dflt
      | Some t \<Rightarrow>
          if t = [] then Inr dflt
          else
            (case match_number_with_suffix t of
               None \<Rightarrow> Inr dflt
             | Some (number_str, suffix) \<Rightarrow>
                 (case py_float_of_str (remove_commas number_str) of
                    None \<Rightarrow> Inr dflt
                  | Some v \<Rightarrow> py_round (scale_by_suffix v suffix))))"

text \<open>
  The specification's notions: a number written with thousands separators \<open>g\<close> and an
  optional fraction, the text of the fraction, the value the number denotes, and the
  factor a suffix stands for.
\<close>

definition fraction_text :: "string option \<Rightarrow> string" where
  "fraction_text fp = (case fp of None \<Rightarrow> [] | Some ds \<Rightarrow> CHR ''.'' # ds)"

definition decimal_value :: "string \<Rightarrow> string option \<Rightarrow> rat" where
  "decimal_value g fp =
     of_nat (digits_val (remove_commas g))
     + (case fp of None \<Rightarrow> 0 | Some ds \<Rightarrow> of_nat (digits_val ds) / 10 ^ length ds)"

definition well_formed_number :: "string \<Rightarrow> string option \<Rightarrow> bool" where
  "well_formed_number g fp =
     (remove_commas g \<noteq> [] \<and> list_all is_digit (remove_commas g)
      \<and> (case fp of None \<Rightarrow> True | Some ds \<Rightarrow> list_all is_digit ds))"

definition suffix_factor :: "string \<Rightarrow> rat option" where
  "suffix_factor suffix =
     (if suffix = [] then Some 1
      else if suffix = ''k'' \<or> suffix = ''K'' then Some 1000
      else if suffix = ''m'' \<or> suffix = ''M'' then Some 1000000
      else None)"

text \<open>The product in binary64: the number is rounded to a float, and so is the product.\<close>

definition float_product :: "rat \<Rightarrow> rat \<Rightarrow> pyfloat" where
  "float_product q factor = (if factor = 1 then fl q else fmul (fl q) (Fin factor))"

section \<open>Properties of URL deduplication\<close>

lemma first_occurrences_set: "set (first_occurrences xs) = set xs"
  by (induction xs rule: first_occurrences.induct) auto

lemma dedupe_loop_eq:
  "dedupe_loop us seen result =
     result @ first_occurrences (filter (\<lambda>u. u \<notin> seen) (trimmed_nonempty us))"
proof (induction us arbitrary: seen result)
  case Nil
  show ?case by (simp add: trimmed_nonempty_def)
next
  case (Cons u us)
  have tn: "trimmed_nonempty (u # us) =
      (if strip u = [] then trimmed_nonempty us else strip u # trimmed_nonempty us)"
    by (simp add: trimmed_nonempty_def)
  have flt: "(\<lambda>y. y \<noteq> x \<and> y \<notin> seen) = (\<lambda>y. y \<notin> seen \<and> y \<noteq> x)" for x :: string
    by auto
  show ?case
    by (simp add: Cons.IH tn flt Let_def)
qed

lemma runner_dedupe_loop_eq:
  "runner_dedupe_loop us seen result = dedupe_loop us seen result"
  by (induction us arbitrary: seen result) (simp_all add: normalize_url_def Let_def)

lemma last_dropWhile_nonempty:
  "dropWhile P xs \<noteq> [] \<Longrightarrow> last (dropWhile P xs) = last xs"
  by (induction xs) (auto split: if_splits)

lemma strip_decomposition:
  "\<exists>l r. s = l @ strip s @ r \<and> list_all py_isspace l \<and> list_all py_isspace r"
proof -
  let ?d = "dropWhile py_isspace s"
  have "s = takeWhile py_isspace s @ ?d" by simp
  moreover have "?d = rev (dropWhile py_isspace (rev ?d)) @ rev (takeWhile py_isspace (rev ?d))"
    by (metis rev_append rev_rev_ident takeWhile_dropWhile_id)
  ultimately have "s = takeWhile py_isspace s @ strip s @ rev (takeWhile py_isspace (rev ?d))"
    by (simp add: strip_def)
  moreover have "list_all py_isspace (takeWhile py_isspace s)"
    by (simp add: list_all_iff) (meson set_takeWhileD)
  moreover have "list_all py_isspace (rev (takeWhile py_isspace (rev ?d)))"
    by (simp add: list_all_iff) (meson set_takeWhileD)
  ultimately show ?thesis by blast
qed

lemma strip_ends:
  "\<not> (strip s \<noteq> [] \<and> (py_isspace (hd (strip s)) \<or> py_isspace (last (strip s))))"
proof (cases "strip s = []")
  case True
  then show ?thesis by simp
next
  case False
  let ?d = "dropWhile py_isspace s"
  let ?e = "dropWhile py_isspace (rev ?d)"
  from False have e: "?e \<noteq> []" by (simp add: strip_def)
  have d: "?d \<noteq> []"
  proof
    assume "?d = []"
    then have "?e = []" by (simp only: rev.simps dropWhile.simps)
    with e show False by simp
  qed
  have "last (strip s) = hd ?e" using e by (simp add: strip_def last_rev)
  moreover have "\<not> py_isspace (hd ?e)" using e by (rule hd_dropWhile)
  moreover have "hd (strip s) = last ?e" using e by (simp add: strip_def hd_rev)
  moreover have "last ?e = last (rev ?d)" using e by (rule last_dropWhile_nonempty)
  moreover have "last (rev ?d) = hd ?d" using d by (simp add: last_rev)
  moreover have "\<not> py_isspace (hd ?d)" using d by (rule hd_dropWhile)
  ultimately show ?thesis by simp
qed

lemma strip_unique:
  assumes l: "list_all py_isspace l" and r: "list_all py_isspace r"
    and t: "\<not> (t \<noteq> [] \<and> (py_isspace (hd t) \<or> py_isspace (last t)))"
  shows "strip (l @ t @ r) = t"
proof -
  from l have dl: "dropWhile py_isspace (l @ t @ r) = dropWhile py_isspace (t @ r)"
    by (simp add: list_all_iff dropWhile_append2)
  show ?thesis
  proof (cases "t = []")
    case True
    have z: "dropWhile py_isspace (l @ t @ r) = []"
      using l r True by (simp add: list_all_iff)
    show ?thesis unfolding strip_def z using True by simp
  next
    case False
    with t have h: "\<not> py_isspace (hd t)" and la: "\<not> py_isspace (last t)" by auto
    from False h have "dropWhile py_isspace (t @ r) = t @ r"
      by (cases t) auto
    moreover from r have "dropWhile py_isspace (rev r @ rev t) = dropWhile py_isspace (rev t)"
      by (intro dropWhile_append2) (auto simp: list_all_iff)
    moreover from False la have "dropWhile py_isspace (rev t) = rev t"
      by (cases "rev t") (auto simp: last_rev [symmetric] simp del: last_rev)
    ultimately show ?thesis using dl by (simp add: strip_def)
  qed
qed

lemma py_isspace_codes:
  "py_isspace c = (of_char c \<in> {9, 10, 11, 12, 13, 28, 29, 30, 31, 32, 133, 160 :: nat})"
  unfolding py_isspace_def Let_def by (simp; arith)

text \<open>
  C8. For every list of URL strings, both deduplication loops trim each entry, drop the
  entries that are empty after trimming, and keep the first occurrence of each distinct
  trimmed string in first-occurrence order. Trimming is \<open>str.strip()\<close>: every string \<open>s\<close>
  is its trimmed form between two runs of whitespace characters, and the trimmed form
  neither starts nor ends with one, which determines it: whenever \<open>t\<close> neither starts nor
  ends with a whitespace character and \<open>l\<close> and \<open>r\<close> consist of whitespace characters,
  \<open>l @ t @ r\<close> is trimmed to \<open>t\<close>. The whitespace characters are those with the codes 9 to
  13, 28 to 32, 133 and 160. The list a, " a ", b, a gives a, b, and so does the list of
  a followed by a no-break space, a, a next-line character followed by a unit separator,
  and b.
\<close>

theorem dedupe_urls_first_occurrences:
  "dedupe_urls urls = first_occurrences (trimmed_nonempty urls)
   \<and> runner_dedupe urls = first_occurrences (trimmed_nonempty urls)
   \<and> distinct (dedupe_urls urls)
   \<and> set (dedupe_urls urls) = {strip u | u. u \<in> set urls \<and> strip u \<noteq> []}
   \<and> (\<exists>l r. s = l @ strip s @ r \<and> list_all py_isspace l \<and> list_all py_isspace r)
   \<and> \<not> (strip s \<noteq> [] \<and> (py_isspace (hd (strip s)) \<or> py_isspace (last (strip s))))
   \<and> (list_all py_isspace l \<and> list_all py_isspace r
        \<and> \<not> (t \<noteq> [] \<and> (py_isspace (hd t) \<or> py_isspace (last t)))
      \<longrightarrow> strip (l @ t @ r) = t)
   \<and> py_isspace c = (of_char c \<in> {9, 10, 11, 12, 13, 28, 29, 30, 31, 32, 133, 160 :: nat})
   \<and> dedupe_urls [''a'', '' a '', ''b'', ''a''] = [''a'', ''b'']
   \<and> dedupe_urls [[CHR ''a'', CHR 0xA0], ''a'', [CHR 0x85, CHR 0x1F], ''b''] = [''a'', ''b'']"
proof -
  have main: "dedupe_urls urls = first_occurrences (trimmed_nonempty urls)"
    by (simp add: dedupe_urls_def dedupe_loop_eq)
  have run: "runner_dedupe urls = first_occurrences (trimmed_nonempty urls)"
    by (simp add: runner_dedupe_def runner_dedupe_loop_eq dedupe_loop_eq)
  have dist: "distinct (first_occurrences xs)" for xs :: "string list"
    by (induction xs rule: first_occurrences.induct) (auto simp: first_occurrences_set)
  have st: "set (trimmed_nonempty urls) = {strip u | u. u \<in> set urls \<and> strip u \<noteq> []}"
    by (auto simp: trimmed_nonempty_def)
  have a: "distinct (dedupe_urls urls)
      \<and> set (dedupe_urls urls) = {strip u | u. u \<in> set urls \<and> strip u \<noteq> []}"
    using dist st by (simp add: main first_occurrences_set)
  have un: "list_all py_isspace l \<and> list_all py_isspace r
        \<and> \<not> (t \<noteq> [] \<and> (py_isspace (hd t) \<or> py_isspace (last t)))
      \<longrightarrow> strip (l @ t @ r) = t"
    using strip_unique [of l r t] by blast
  have ex: "dedupe_urls [''a'', '' a '', ''b'', ''a''] = [''a'', ''b'']"
    by (simp add: dedupe_urls_def strip_def py_isspace_def Let_def)
  have ex2: "dedupe_urls [[CHR ''a'', CHR 0xA0], ''a'', [CHR 0x85, CHR 0x1F], ''b'']
      = [''a'', ''b'']"
    by (simp add: dedupe_urls_def strip_def py_isspace_def Let_def)
  show ?thesis
    using main run a strip_decomposition [of s] strip_ends [of s] un py_isspace_codes [of c]
      ex ex2
    by (intro conjI) (simp_all only: simp_thms)
qed

theorem dedupe_urls_first_occurrences_witness:
  "first_occurrences (trimmed_nonempty [''a'', '' a '', ''b'', ''a'']) = [''a'', ''b'']
   \<and> runner_dedupe [''a'', '' a '', ''b'', ''a''] = [''a'', ''b'']
   \<and> strip '' a '' = ''a''
   \<and> py_isspace (CHR 0xA0)"
proof -
  note inst = dedupe_urls_first_occurrences
      [of "[''a'', '' a '', ''b'', ''a'']" "'' a ''" "'' ''" "'' ''" "''a''" "CHR 0xA0"]
  have sp: "list_all py_isspace '' ''" by (simp add: py_isspace_def)
  have cl: "\<not> (''a'' \<noteq> [] \<and> (py_isspace (hd ''a'') \<or> py_isspace (last ''a'')))"
    by (simp add: py_isspace_def)
  from inst have "strip ('' '' @ ''a'' @ '' '') = ''a''" using sp cl by blast
  then have s: "strip '' a '' = ''a''" by simp
  from inst have e1: "dedupe_urls [''a'', '' a '', ''b'', ''a'']
      = first_occurrences (trimmed_nonempty [''a'', '' a '', ''b'', ''a''])"
    by blast
  from inst have e2: "runner_dedupe [''a'', '' a '', ''b'', ''a'']
      = first_occurrences (trimmed_nonempty [''a'', '' a '', ''b'', ''a''])"
    by blast
  from inst have e3: "dedupe_urls [''a'', '' a '', ''b'', ''a''] = [''a'', ''b'']"
    by blast
  from e1 e3 have f: "first_occurrences (trimmed_nonempty [''a'', '' a '', ''b'', ''a''])
      = [''a'', ''b'']"
    by (simp only:)
  from e2 f have r: "runner_dedupe [''a'', '' a '', ''b'', ''a''] = [''a'', ''b'']"
    by (simp only:)
  from inst have w: "py_isspace (CHR 0xA0)" by simp
  from f r s w show ?thesis by blast
qed

section \<open>Properties of the structured-data locator\<close>

lemma find_product_json_first_match:
  "find_product_json objs = List.find type_tag_matches objs"
  by (induction objs) (auto simp: type_tag_matches_def split: pyval.splits)

lemma find_product_json_none_iff:
  "find_product_json objs = None \<longleftrightarrow> (\<forall>obj \<in> set objs. \<not> type_tag_matches obj)"
  by (auto simp: find_product_json_first_match find_None_iff)

text \<open>
  C3. The locator is to return the first object whose type tag is "Product" directly or
  within a type-list. On a non-matching object followed by an object whose type-list is
  Thing, Product, the locator of src/parser returns the second object, and the locator of
  src/extractors returns \<open>None\<close>: it compares the tag with the string only.
\<close>

theorem find_product_ld_type_list:
  "find_product_ld
     [PDict [(''@type'', PStr ''Thing'')],
      PDict [(''@type'', PList [PStr ''Thing'', PStr ''Product''])]] = None
   \<and> find_product_json
     [[(''@type'', PStr ''Thing'')],
      [(''@type'', PList [PStr ''Thing'', PStr ''Product''])]]
     = Some [(''@type'', PList [PStr ''Thing'', PStr ''Product''])]"
  by (simp add: py_get_def)

section \<open>Properties of binary64 rounding\<close>

lemma floor_numeral_div:
  "\<lfloor>(numeral a :: rat) / numeral b\<rfloor> = numeral a div numeral b"
  using floor_divide_of_int_eq [of "numeral a" "numeral b", where ?'a = rat] by simp

lemmas fl_eval =
  fl_def float_of_rounded_def overflows_def round_binary64_def round_to_multiple_def
  round_half_even_def round_from_floor_def floor_log2_def adjust_log2_def pow2_def
  bit_length.simps floor_numeral_div







lemma float_of_int_zero: "float_of_int 0 = Inr (Fin 0)"
  by (simp add: float_of_int_def fl_def float_of_rounded_def round_binary64_def overflows_def)


section \<open>Properties of the statistics\<close>





lemma parse_float_text_returns: "\<exists>x. parse_float (PStr t) d = Inr x"
  by (cases "py_float_of_str (remove_commas (strip t))") simp_all


lemma parse_statistics_no_reviews_shape:
  assumes "parse_statistics soup [] = Inr stats"
  shows "\<exists>a k. stats = statistics_record a 0 0 k"
proof -
  obtain a where a: "(case overall_rating soup of
        Some t \<Rightarrow> parse_float (PStr t) (Fin 0) | None \<Rightarrow> Inr (Fin 0)) = Inr a"
    using parse_float_text_returns by (cases "overall_rating soup") auto
  show ?thesis
  proof (cases "case total_reviews soup of Some t \<Rightarrow> parse_int (PStr t) 0 | None \<Rightarrow> Inr 0")
    case (Inl e)
    with assms a show ?thesis by (simp add: parse_statistics_def)
  next
    case (Inr k)
    show ?thesis
    proof (cases "histogram_rows soup = []")
      case True
      with assms a Inr show ?thesis by (auto simp: parse_statistics_def)
    next
      case False
      show ?thesis
      proof (cases "histogram_loop (histogram_rows soup) 0 (Fin 0)")
        case (Inl e)
        with assms a Inr False show ?thesis by (simp add: parse_statistics_def)
      next
        case hl: (Inr p)
        obtain t w where p: "p = (t, w)" by (cases p)
        show ?thesis
          using assms a Inr False hl p
          by (auto simp: parse_statistics_def split: if_splits sum.splits)
      qed
    qed
  qed
qed

text \<open>
  C1, as stated, fails on the page-reading path: with no reviews and a page with no rating
  summary and no histogram, \<open>parse_statistics\<close> reports the average rating and both vote
  counts as zeros, not as \<open>None\<close>.
\<close>

theorem parse_statistics_no_data_is_zero:
  "parse_statistics no_summary_page [] =
     Inr [(''average_rating'', PFloat (Fin 0)),
          (''helpful_vote_count'', PInt 0),
          (''not_helpful_vote_count'', PInt 0),
          (''review_count'', PInt 0),
          (''variant_count'', PInt 0)]"
  by (simp add: parse_statistics_def statistics_record_def no_summary_page_def)

text \<open>
  C1, amended. Given an empty review list, the fold over the reviews
  (\<open>build_statistics_from_reviews\<close>) reports average_rating, helpful_vote_count,
  not_helpful_vote_count and recommended_review_count as \<open>None\<close> and review_count as 0.
  The page-reading path (\<open>parse_statistics\<close>) never reports \<open>None\<close>: whenever it returns,
  average_rating is a float, both vote counts are the integer 0 and the record has no
  recommended_review_count field; on a page with no rating summary and no histogram the
  average rating is 0.0 and review_count is 0.
\<close>

theorem statistics_of_no_reviews:
  "build_statistics_from_reviews lib [] =
     Inr [(''average_rating'', PNone),
          (''helpful_vote_count'', PNone),
          (''not_helpful_vote_count'', PNone),
          (''recommended_review_count'', PNone),
          (''review_count'', PInt 0)]
   \<and> (parse_statistics soup [] = Inr stats \<longrightarrow>
        (\<exists>x. py_get stats ''average_rating'' = PFloat x)
        \<and> py_get stats ''helpful_vote_count'' = PInt 0
        \<and> py_get stats ''not_helpful_vote_count'' = PInt 0
        \<and> map_of stats ''recommended_review_count'' = None)
   \<and> parse_statistics no_summary_page [] = Inr (statistics_record (Fin 0) 0 0 0)"
proof -
  have fold: "build_statistics_from_reviews lib [] =
     Inr [(''average_rating'', PNone),
          (''helpful_vote_count'', PNone),
          (''not_helpful_vote_count'', PNone),
          (''recommended_review_count'', PNone),
          (''review_count'', PInt 0)]"
    by (simp add: build_statistics_from_reviews_def)
  have page: "(\<exists>x. py_get stats ''average_rating'' = PFloat x)
        \<and> py_get stats ''helpful_vote_count'' = PInt 0
        \<and> py_get stats ''not_helpful_vote_count'' = PInt 0
        \<and> map_of stats ''recommended_review_count'' = None"
    if "parse_statistics soup [] = Inr stats"
  proof -
    from parse_statistics_no_reviews_shape [OF that]
    obtain a k where "stats = statistics_record a 0 0 k" by blast
    then show ?thesis by (simp add: statistics_record_def py_get_def)
  qed
  have empty: "parse_statistics no_summary_page [] = Inr (statistics_record (Fin 0) 0 0 0)"
    by (simp add: parse_statistics_def no_summary_page_def)
  from fold page empty show ?thesis by blast
qed

theorem statistics_of_no_reviews_witness:
  "parse_statistics no_summary_page [] = Inr (statistics_record (Fin 0) 0 0 0)
   \<and> py_get (statistics_record (Fin 0) 0 0 0) ''average_rating'' = PFloat (Fin 0)
   \<and> py_get (statistics_record (Fin 0) 0 0 0) ''helpful_vote_count'' = PInt 0
   \<and> map_of (statistics_record (Fin 0) 0 0 0) ''recommended_review_count'' = None"
  using statistics_of_no_reviews [of sample_lib no_summary_page "statistics_record (Fin 0) 0 0 0"]
  by (simp add: statistics_record_def py_get_def)




section \<open>Properties of the block scanners\<close>

text \<open>What one block contributes to the result of \<open>extract_json_ld_objects\<close>.\<close>

lemma strip_Nil: "strip [] = []"
  by (simp add: strip_def)

lemma extract_json_ld_objects_append:
  "extract_json_ld_objects lib scripts (results @ rest) =
     map_sum (\<lambda>e. e) (\<lambda>found. results @ found) (extract_json_ld_objects lib scripts rest)"
proof (induction scripts arbitrary: rest)
  case Nil
  show ?case by simp
next
  case (Cons script scripts)
  show ?case
  proof (cases script)
    case None
    then show ?thesis using Cons.IH by simp
  next
    case (Some s)
    have ih: "extract_json_ld_objects lib scripts (results @ rest @ xs) =
        map_sum (\<lambda>e. e) (\<lambda>found. results @ found) (extract_json_ld_objects lib scripts (rest @ xs))"
      for xs
      using Cons.IH [of "rest @ xs"] by simp
    show ?thesis
      using Some Cons.IH [of rest] ih
      by (simp add: Let_def split: sum.splits)
  qed
qed

lemma extract_json_ld_objects_skips_malformed:
  assumes "json_loads lib (strip text) = Inl JSONDecodeError"
    and "json_loads lib (''['' @ strip text @ '']'') = Inl e"
  shows "extract_json_ld_objects lib (Some text # scripts) results
     = extract_json_ld_objects lib scripts results"
  using assms by (simp add: Let_def)

lemma extract_json_ld_objects_retries_wrapped:
  assumes "strip text \<noteq> []"
    and "json_loads lib (strip text) = Inl JSONDecodeError"
    and "json_loads lib (''['' @ strip text @ '']'') = Inr data"
  shows "extract_json_ld_objects lib (Some text # scripts) results
     = extract_json_ld_objects lib scripts (results @ objects_of data)"
  using assms by (auto simp: Let_def strip_Nil)

lemma extract_json_ld_objects_never_aborts:
  assumes "\<forall>script text. script \<in> set scripts \<longrightarrow> script = Some text \<longrightarrow>
      json_loads lib (strip text) \<noteq> Inl RecursionError \<and>
      (\<forall>e. json_loads lib (strip text) = Inl e \<longrightarrow> e = JSONDecodeError \<or> e = RecursionError)"
  shows "\<exists>found. extract_json_ld_objects lib scripts results = Inr found"
  using assms
proof (induction scripts arbitrary: results)
  case Nil
  show ?case by simp
next
  case (Cons script scripts)
  then have ih: "\<exists>found. extract_json_ld_objects lib scripts acc = Inr found" for acc
    by simp
  show ?case
  proof (cases script)
    case None
    then show ?thesis using ih by simp
  next
    case (Some s)
    with Cons.prems have ok: "json_loads lib (strip s) \<noteq> Inl RecursionError"
      and only: "\<And>e. json_loads lib (strip s) = Inl e \<Longrightarrow> e = JSONDecodeError \<or> e = RecursionError"
      by auto
    show ?thesis
    proof (cases "json_loads lib (strip s)")
      case (Inr data)
      with Some ih show ?thesis by (simp add: Let_def)
    next
      case (Inl e)
      with ok only have "e = JSONDecodeError" by auto
      with Inl Some ih show ?thesis by (simp add: Let_def split: sum.splits)
    qed
  qed
qed

text \<open>
  C6. A block whose text fails to parse is to be parsed again in array brackets before it
  is given up. On the block \<open>{},{}\<close> (two sibling objects) \<open>extract_json_ld_objects\<close> does
  so and returns the two objects, and goes on to the next block; \<open>_extract_ld_json_blocks\<close>
  drops the block at the first failure and returns the next block only.
\<close>

theorem extract_ld_json_blocks_no_retry:
  "extract_ld_json_blocks sample_lib [Some ''{},{}'', Some ''{}''] [] = Inr [PDict []]
   \<and> extract_json_ld_objects sample_lib [Some ''{},{}'', Some ''{}''] [] = Inr [[], [], []]
   \<and> json_loads sample_lib ''{},{}'' = Inl JSONDecodeError
   \<and> json_loads sample_lib ''[{},{}]'' = Inr (PList [PDict [], PDict []])"
  by (simp add: sample_lib_def sample_loads_def strip_def py_isspace_def)

section \<open>Properties of the variant extractors\<close>

lemma clean_text_of_text:
  "text_or_absent a \<Longrightarrow> text_or_absent b \<Longrightarrow>
     \<exists>n. clean_text (py_or (py_or a b) (PStr [])) = Inr n"
  by (auto simp: text_or_absent_def clean_text_def py_or_def split: pyval.splits)

lemma ld_variant_id:
  "ld_variant lib idx v = Inr variant \<Longrightarrow>
     py_get variant ''variant_id'' = PStr (id_or_placeholder lib idx v)"
  by (auto simp: ld_variant_def Let_def id_or_placeholder_def upstream_id_def py_or_def py_get_def
      split: sum.splits)

lemma ld_variant_returns:
  assumes "text_or_absent (py_get v ''name'')" and "text_or_absent (py_get v ''description'')"
  shows "\<exists>variant. ld_variant lib idx v = Inr variant"
proof -
  from clean_text_of_text [OF assms] obtain n where
    "clean_text (py_or (py_or (py_get v ''name'') (py_get v ''description'')) (PStr [])) = Inr n"
    by blast
  then show ?thesis by (simp add: ld_variant_def Let_def)
qed

lemma ld_variants_loop_ids:
  "ld_variants_loop lib k vs acc = Inr variants \<Longrightarrow>
     map (\<lambda>var. py_get var ''variant_id'') variants =
       map (\<lambda>var. py_get var ''variant_id'') acc
       @ map (\<lambda>(i, d). PStr (id_or_placeholder lib i d)) (indexed_dicts k vs)"
proof (induction vs arbitrary: k acc)
  case Nil
  then show ?case by simp
next
  case (Cons v vs)
  show ?case
  proof (cases v)
    case (PDict d)
    with Cons.prems obtain variant where
      v: "ld_variant lib k d = Inr variant"
      and rest: "ld_variants_loop lib (Suc k) vs (acc @ [variant]) = Inr variants"
      by (auto split: sum.splits)
    from Cons.IH [OF rest] ld_variant_id [OF v] PDict show ?thesis by simp
  qed (use Cons in simp_all)
qed

lemma ld_variants_loop_returns:
  "\<forall>d. PDict d \<in> set vs \<longrightarrow>
      text_or_absent (py_get d ''name'') \<and> text_or_absent (py_get d ''description'') \<Longrightarrow>
     \<exists>variants. ld_variants_loop lib k vs acc = Inr variants"
proof (induction vs arbitrary: k acc)
  case Nil
  show ?case by simp
next
  case (Cons v vs)
  then have ih: "\<exists>variants. ld_variants_loop lib k' vs acc' = Inr variants" for k' acc'
    by simp
  show ?case
  proof (cases v)
    case (PDict d)
    with Cons.prems have "text_or_absent (py_get d ''name'')"
      and "text_or_absent (py_get d ''description'')" by simp_all
    from ld_variant_returns [OF this] obtain variant where "ld_variant lib k d = Inr variant"
      by blast
    with PDict ih show ?thesis by simp
  qed (use ih in simp_all)
qed

lemma offer_variant_id:
  "variant_id (offer_variant lib offer) =
     (case upstream_id lib offer of
        Some s \<Rightarrow> if s = [] then PNone else PStr s
      | None \<Rightarrow> PNone)"
  by (simp add: offer_variant_def Let_def upstream_id_def py_or_def)

text \<open>
  C9, as stated, fails in \<open>ProductParser._build_variants\<close>: an offer with neither sku nor
  productID gets the variant_id \<open>None\<close>, not a placeholder.
\<close>

theorem build_variants_id_absent:
  "build_variants sample_lib
     (Some [(''@type'', PStr ''Product''), (''offers'', PList [PDict [(''name'', PStr ''Red'')]])]) =
   Inr [\<lparr>variant_id = PNone, variant_description = PNone, is_variant_available = None,
         variant_name = PStr ''Red'', variant_image = PNone\<rparr>]"
  by (simp add: build_variants_def offer_variant_def is_offer_available_def py_get_def py_or_def)

text \<open>
  C9, amended. In \<open>parse_product_variants\<close> the variants built from the variant-or-offer
  list carry, in order, for each dictionary entry at index \<open>i\<close> the variant_id that is the
  text of its sku if the sku counts as true, else the text of its productID if that counts
  as true, else the placeholder \<open>variant-i\<close>: always a string; and the variants are built
  whenever the name and the description of every entry are texts or absent. In
  \<open>ProductParser._build_variants\<close> the variant_id is the text of the sku or of the
  productID in the same way, and \<open>None\<close> when neither counts as true.
\<close>

theorem variant_id_derivation:
  "(ld_variants_loop lib 0 vs [] = Inr variants \<longrightarrow>
      map (\<lambda>var. py_get var ''variant_id'') variants =
        map (\<lambda>(i, d). PStr (id_or_placeholder lib i d)) (indexed_dicts 0 vs))
   \<and> ((\<forall>d. PDict d \<in> set vs \<longrightarrow>
          text_or_absent (py_get d ''name'') \<and> text_or_absent (py_get d ''description''))
      \<longrightarrow> (\<exists>built. ld_variants_loop lib 0 vs [] = Inr built))
   \<and> variant_id (offer_variant lib offer) =
       (case upstream_id lib offer of
          Some s \<Rightarrow> if s = [] then PNone else PStr s
        | None \<Rightarrow> PNone)"
  using ld_variants_loop_ids [of lib 0 vs "[]" variants] ld_variants_loop_returns [of vs lib 0 "[]"]
    offer_variant_id [of lib offer]
  by simp

theorem variant_id_derivation_witness:
  "ld_variants_loop sample_lib 0
     [PDict [(''sku'', PStr ''A1'')], PStr ''junk'', PDict [(''productID'', PInt 77)], PDict []] [] =
     Inr [[(''variant_id'', PStr ''A1''), (''variant_description'', PStr []),
           (''is_variant_available'', PBool True), (''variant_name'', PStr []),
           (''variant_image'', PStr [])],
          [(''variant_id'', PStr ''77''), (''variant_description'', PStr []),
           (''is_variant_available'', PBool True), (''variant_name'', PStr []),
           (''variant_image'', PStr [])],
          [(''variant_id'', PStr ''variant-3''), (''variant_description'', PStr []),
           (''is_variant_available'', PBool True), (''variant_name'', PStr []),
           (''variant_image'', PStr [])]]
   \<and> map (\<lambda>(i, d). PStr (id_or_placeholder sample_lib i d))
       (indexed_dicts 0
          [PDict [(''sku'', PStr ''A1'')], PStr ''junk'', PDict [(''productID'', PInt 77)], PDict []])
     = [PStr ''A1'', PStr ''77'', PStr ''variant-3'']
   \<and> variant_id (offer_variant sample_lib [(''productID'', PInt 77)]) = PStr ''77''
   \<and> variant_id (offer_variant sample_lib []) = PNone"
proof -
  let ?vs = "[PDict [(''sku'', PStr ''A1'')], PStr ''junk'', PDict [(''productID'', PInt 77)], PDict []]"
  let ?out = "[[(''variant_id'', PStr ''A1''), (''variant_description'', PStr []),
           (''is_variant_available'', PBool True), (''variant_name'', PStr []),
           (''variant_image'', PStr [])],
          [(''variant_id'', PStr ''77''), (''variant_description'', PStr []),
           (''is_variant_available'', PBool True), (''variant_name'', PStr []),
           (''variant_image'', PStr [])],
          [(''variant_id'', PStr ''variant-3''), (''variant_description'', PStr []),
           (''is_variant_available'', PBool True), (''variant_name'', PStr []),
           (''variant_image'', PStr [])]]"
  have ev: "ld_variants_loop sample_lib 0 ?vs [] = Inr ?out"
    by (simp add: ld_variant_def Let_def py_get_def py_or_def clean_text_def str_of_int_def
        str_of_nat.simps char_of_def bit_iff_odd)
  have ids: "map (\<lambda>var. py_get var ''variant_id'') ?out = [PStr ''A1'', PStr ''77'', PStr ''variant-3'']"
    by (simp add: py_get_def)
  have up: "upstream_id sample_lib [(''productID'', PInt 77)] = Some ''77''"
    by (simp add: upstream_id_def py_get_def str_of_int_def str_of_nat.simps char_of_def bit_iff_odd)
  have up0: "upstream_id sample_lib [] = None"
    by (simp add: upstream_id_def py_get_def)
  from variant_id_derivation [of sample_lib ?vs ?out "[(''productID'', PInt 77)]"] ev ids up
  have a: "map (\<lambda>(i, d). PStr (id_or_placeholder sample_lib i d)) (indexed_dicts 0 ?vs)
      = [PStr ''A1'', PStr ''77'', PStr ''variant-3'']"
    and b: "variant_id (offer_variant sample_lib [(''productID'', PInt 77)]) = PStr ''77''"
    by simp_all
  from variant_id_derivation [of sample_lib ?vs ?out "[]"] up0
  have c: "variant_id (offer_variant sample_lib []) = PNone"
    by simp
  from ev a b c show ?thesis by blast
qed

section \<open>Properties of the product info\<close>

lemma info_brand_from_json: "info_brand (info_from_json lib pj) = metadata_brand (Some pj)"
  by (simp add: info_from_json_def metadata_brand_def)

lemma metadata_brand_empty: "metadata_brand (Some []) = PNone"
  by (simp add: metadata_brand_def py_get_def)

lemma build_product_info_brand:
  "info_brand (build_product_info lib soup product_json source_url) =
     (if truthy (metadata_brand product_json) then metadata_brand product_json
      else py_or (extract_meta_tag (og_site_name soup)) (PStr ''Sephora''))"
proof (cases product_json)
  case None
  then show ?thesis
    by (simp add: build_product_info_def Let_def empty_info_def metadata_brand_def
        split: option.splits)
next
  case (Some pj)
  show ?thesis
  proof (cases "pj = []")
    case True
    with Some show ?thesis
      by (simp add: build_product_info_def Let_def empty_info_def metadata_brand_empty
          split: option.splits)
  next
    case False
    with Some show ?thesis
      by (simp add: build_product_info_def Let_def info_brand_from_json split: option.splits)
  qed
qed

lemma site_name_or_sephora:
  "is_nonempty_text (py_or (extract_meta_tag content) (PStr ''Sephora''))"
  by (simp add: is_nonempty_text_def py_or_def extract_meta_tag_def split: option.splits)

lemma build_product_info_brand_truthy:
  "truthy (info_brand (build_product_info lib soup product_json source_url))"
  using site_name_or_sephora [of "og_site_name soup"]
  by (auto simp: build_product_info_brand is_nonempty_text_def split: pyval.splits)

lemma build_product_info_brand_text:
  assumes "text_or_absent (metadata_brand product_json)"
  shows "is_nonempty_text (info_brand (build_product_info lib soup product_json source_url))"
  using assms site_name_or_sephora [of "og_site_name soup"]
  by (auto simp: build_product_info_brand text_or_absent_def is_nonempty_text_def
      split: pyval.splits)

lemma build_product_info_brand_conflated:
  "info_brand (build_product_info lib no_meta_page None url) = PStr ''Sephora''"
  "info_brand (build_product_info lib no_meta_page
      (Some [(''@type'', PStr ''Product''), (''brand'', PStr ''Sephora'')]) url) = PStr ''Sephora''"
  by (simp_all add: build_product_info_brand metadata_brand_def py_get_def py_or_def
      extract_meta_tag_def no_meta_page_def)

text \<open>
  C10. The brand of the assembled record is to be a non-empty string always. For a
  metadata object whose brand is an object with the name 123 (a JSON number),
  \<open>_build_product_info\<close> stores the number: the name of a brand object is taken as it is,
  while a brand given directly is checked to be a string.
\<close>

theorem build_product_info_brand_number:
  "info_brand (build_product_info sample_lib no_meta_page
      (Some [(''@type'', PStr ''Product''), (''brand'', PDict [(''name'', PInt 123)])])
      ''https://www.sephora.com/product/lip-P123'') = PInt 123
   \<and> \<not> is_nonempty_text (PInt 123)"
  by (simp add: build_product_info_brand metadata_brand_def py_get_def is_nonempty_text_def)

section \<open>Properties of date normalization\<close>

lemma digits_val_snoc: "digits_val (ds @ [c]) = 10 * digits_val ds + digit_val c"
  by (simp add: digits_val_def)

lemma digit_val_char_of: "d < 10 \<Longrightarrow> digit_val (char_of (48 + d)) = d"
  by (simp add: digit_val_def)

lemma digits_val_str_of_nat: "digits_val (str_of_nat n) = n"
proof (induction n rule: str_of_nat.induct)
  case (1 n)
  show ?case
  proof (cases "n < 10")
    case True
    then show ?thesis
      by (subst str_of_nat.simps) (simp add: digits_val_def digit_val_char_of)
  next
    case False
    with 1 have ih: "digits_val (str_of_nat (n div 10)) = n div 10" by simp
    have "n mod 10 < 10" by simp
    then have dv: "digit_val (char_of (48 + n mod 10)) = n mod 10" by (rule digit_val_char_of)
    show ?thesis
      using False by (subst str_of_nat.simps) (simp add: digits_val_snoc ih dv)
  qed
qed

lemma length_str_of_nat: "n < 10 ^ k \<Longrightarrow> 0 < k \<Longrightarrow> length (str_of_nat n) \<le> k"
proof (induction n arbitrary: k rule: str_of_nat.induct)
  case (1 n)
  show ?case
  proof (cases "n < 10")
    case True
    then show ?thesis using 1(3) by (subst str_of_nat.simps) simp
  next
    case False
    obtain j where k: "k = Suc j" using 1(3) by (cases k) auto
    have "j \<noteq> 0" using False 1(2) k by (cases j) auto
    moreover have "n div 10 < 10 ^ j" using 1(2) k by (simp add: less_mult_imp_div_less mult.commute)
    ultimately have "length (str_of_nat (n div 10)) \<le> j" using 1(1) False by simp
    then show ?thesis using False k by (subst str_of_nat.simps) simp
  qed
qed

lemma digits_val_zero_pad: "digits_val (zero_pad k s) = digits_val s"
proof -
  have "foldl (\<lambda>a c. 10 * a + digit_val c) 0 (replicate m (CHR ''0'')) = 0" for m
    by (induction m) (simp_all add: digit_val_def)
  then show ?thesis by (simp add: digits_val_def zero_pad_def)
qed

lemma length_zero_pad: "length s \<le> k \<Longrightarrow> length (zero_pad k s) = k"
  by (simp add: zero_pad_def)

lemma date_of_iso_isoformat:
  assumes "year dt < 10000" "month dt < 100" "day dt < 100"
  shows "date_of_iso (isoformat dt) = dt"
proof -
  let ?y = "zero_pad 4 (str_of_nat (year dt))"
  let ?m = "zero_pad 2 (str_of_nat (month dt))"
  let ?d = "zero_pad 2 (str_of_nat (day dt))"
  have ly: "length ?y = 4"
    using length_str_of_nat [of "year dt" 4] assms by (simp add: length_zero_pad)
  have lm: "length ?m = 2"
    using length_str_of_nat [of "month dt" 2] assms by (simp add: length_zero_pad)
  have ld: "length ?d = 2"
    using length_str_of_nat [of "day dt" 2] assms by (simp add: length_zero_pad)
  have "date_of_iso (?y @ ''-'' @ ?m @ ''-'' @ ?d @ ''T00:00:00'')
      = \<lparr>year = digits_val ?y, month = digits_val ?m, day = digits_val ?d\<rparr>"
    by (simp add: date_of_iso_def ly lm ld)
  then show ?thesis
    by (simp add: isoformat_def digits_val_zero_pad digits_val_str_of_nat)
qed

lemma try_formats_first_parse:
  assumes "raises_only_value_error lib text"
  shows "try_formats lib text [''%b %d, %Y'', ''%B %d, %Y'', ''%Y-%m-%d'']
     = Inr (map_option isoformat (first_parse lib text))"
proof -
  from assms have
    a: "strptime lib text ''%b %d, %Y'' \<in> range Inr \<union> {Inl ValueError}" and
    b: "strptime lib text ''%B %d, %Y'' \<in> range Inr \<union> {Inl ValueError}" and
    c: "strptime lib text ''%Y-%m-%d'' \<in> range Inr \<union> {Inl ValueError}"
    by (simp_all add: raises_only_value_error_def)
  show ?thesis
  proof (cases "strptime lib text ''%b %d, %Y''")
    case (Inr dt)
    then show ?thesis by (simp add: first_parse_def)
  next
    case a1: (Inl e1)
    with a have e1: "e1 = ValueError" by auto
    show ?thesis
    proof (cases "strptime lib text ''%B %d, %Y''")
      case (Inr dt)
      with a1 e1 show ?thesis by (simp add: first_parse_def)
    next
      case b1: (Inl e2)
      with b have e2: "e2 = ValueError" by auto
      show ?thesis
      proof (cases "strptime lib text ''%Y-%m-%d''")
        case (Inr dt)
        with a1 e1 b1 e2 show ?thesis by (simp add: first_parse_def)
      next
        case c1: (Inl e3)
        with c have "e3 = ValueError" by auto
        with a1 e1 b1 e2 c1 show ?thesis by (simp add: first_parse_def)
      qed
    qed
  qed
qed

text \<open>
  C7. Date normalization tries the three formats abbreviated-month day year, full-month
  day year and ISO date in this order; the first format that parses the text gives the
  result, the ISO-8601 text of the parsed date, which denotes that same calendar date;
  when none of the three parses the text the result is \<open>None\<close>; and no exception leaves
  the function (\<open>strptime\<close> raising nothing but \<open>ValueError\<close> on a text). The review and
  the question normalizers are the same function.
\<close>

theorem normalize_date_first_parse:
  assumes "raises_only_value_error lib text"
  shows "normalize_date lib text = Inr (map_option isoformat (first_parse lib text))
    \<and> normalize_question_date lib text = normalize_date lib text
    \<and> (first_parse lib text = None \<longrightarrow> normalize_date lib text = Inr None)
    \<and> (first_parse lib text = Some dt \<and> year dt < 10000 \<and> month dt < 100 \<and> day dt < 100
        \<longrightarrow> map_sum id (map_option date_of_iso) (normalize_date lib text) = Inr (Some dt))"
  using try_formats_first_parse [OF assms] date_of_iso_isoformat [of dt]
  by (simp add: normalize_date_def normalize_question_date_def)

theorem normalize_date_first_parse_witness:
  "raises_only_value_error sample_lib ''January 5, 2024''
   \<and> first_parse sample_lib ''January 5, 2024'' = Some \<lparr>year = 2024, month = 1, day = 5\<rparr>
   \<and> normalize_date sample_lib ''January 5, 2024'' = Inr (Some ''2024-01-05T00:00:00'')
   \<and> map_sum id (map_option date_of_iso) (normalize_date sample_lib ''January 5, 2024'')
       = Inr (Some \<lparr>year = 2024, month = 1, day = 5\<rparr>)
   \<and> raises_only_value_error sample_lib ''yesterday''
   \<and> normalize_date sample_lib ''yesterday'' = Inr None"
proof -
  have r1: "raises_only_value_error sample_lib ''January 5, 2024''"
    by (simp add: raises_only_value_error_def sample_lib_def sample_strptime_def)
  have f1: "first_parse sample_lib ''January 5, 2024'' = Some \<lparr>year = 2024, month = 1, day = 5\<rparr>"
    by (simp add: first_parse_def sample_lib_def sample_strptime_def)
  have iso: "isoformat \<lparr>year = 2024, month = 1, day = 5\<rparr> = ''2024-01-05T00:00:00''"
    by (simp add: isoformat_def zero_pad_def str_of_nat.simps char_of_def bit_iff_odd)
  have r2: "raises_only_value_error sample_lib ''yesterday''"
    by (simp add: raises_only_value_error_def sample_lib_def sample_strptime_def)
  have f2: "first_parse sample_lib ''yesterday'' = None"
    by (simp add: first_parse_def sample_lib_def sample_strptime_def)
  from normalize_date_first_parse [OF r1, of "\<lparr>year = 2024, month = 1, day = 5\<rparr>"] f1 iso
  have a: "normalize_date sample_lib ''January 5, 2024'' = Inr (Some ''2024-01-05T00:00:00'')"
    and b: "map_sum id (map_option date_of_iso) (normalize_date sample_lib ''January 5, 2024'')
       = Inr (Some \<lparr>year = 2024, month = 1, day = 5\<rparr>)"
    by (simp_all add: date_of_iso_def digits_val_def digit_val_def)
  from normalize_date_first_parse [OF r2] f2
  have c: "normalize_date sample_lib ''yesterday'' = Inr None"
    by simp
  from r1 f1 a b r2 c show ?thesis by blast
qed

section \<open>Properties of the per-URL loops\<close>

lemma queue_similar_products:
  "all_products (queue_similar links st) = all_products st"
  by (induction links arbitrary: st) simp_all

lemma main_step_returns: "\<exists>st'. main_step env include_similar st url = Inr st'"
  by (simp add: main_step_def Let_def split: option.splits sum.splits)

lemma main_step_keeps_products:
  "main_step env include_similar st url = Inr st' \<Longrightarrow>
     \<exists>added. all_products st' = all_products st @ added"
  by (auto simp: main_step_def Let_def queue_similar_products
      split: option.splits sum.splits if_splits)

lemma main_step_raising_skipped:
  "fetch_html env url = Some html \<Longrightarrow> parse_product env html url = Inl e \<Longrightarrow>
     main_step env include_similar st url = Inr st"
  by (simp add: main_step_def)

lemma main_loop_never_raises:
  "main_loop env include_similar fuel i st \<noteq> Some (Inl e)"
proof (induction fuel arbitrary: i st)
  case 0
  show ?case by simp
next
  case (Suc fuel)
  obtain st' where "main_step env include_similar st (product_urls st ! i) = Inr st'"
    using main_step_returns by blast
  with Suc show ?case by simp
qed

lemma main_loop_keeps_products:
  "main_loop env include_similar fuel i st = Some (Inr st') \<Longrightarrow>
     \<exists>added. all_products st' = all_products st @ added"
proof (induction fuel arbitrary: i st)
  case 0
  then show ?case by simp
next
  case (Suc fuel)
  show ?case
  proof (cases "i < length (product_urls st)")
    case False
    with Suc.prems show ?thesis by simp
  next
    case True
    obtain st1 where s: "main_step env include_similar st (product_urls st ! i) = Inr st1"
      using main_step_returns by blast
    with Suc.prems True have "main_loop env include_similar fuel (Suc i) st1 = Some (Inr st')"
      by simp
    from Suc.IH [OF this] main_step_keeps_products [OF s] show ?thesis by auto
  qed
qed

lemma main_step_keeps_urls:
  "main_step env False st url = Inr st' \<Longrightarrow> product_urls st' = product_urls st"
  by (auto simp: main_step_def Let_def split: option.splits sum.splits if_splits)

lemma main_loop_terminates:
  "length (product_urls st) - i < fuel \<Longrightarrow> \<exists>st'. main_loop env False fuel i st = Some (Inr st')"
proof (induction fuel arbitrary: i st)
  case 0
  then show ?case by simp
next
  case (Suc fuel)
  show ?case
  proof (cases "i < length (product_urls st)")
    case False
    then show ?thesis by simp
  next
    case True
    obtain st1 where s: "main_step env False st (product_urls st ! i) = Inr st1"
      using main_step_returns by blast
    from main_step_keeps_urls [OF s] Suc.prems True
    have "length (product_urls st1) - Suc i < fuel" by simp
    from Suc.IH [OF this] s True show ?thesis by simp
  qed
qed

lemma runner_loop_propagates:
  "process_product env url = Inl e \<Longrightarrow> runner_loop env (url # urls) dataset = Inl e"
  by simp

lemma extractor_can_raise: "ld_variant lib 0 [(''name'', PList [PStr ''x''])] = Inl AttributeError"
  by (simp add: ld_variant_def Let_def py_get_def py_or_def clean_text_def)

text \<open>
  C4. An exception raised while one URL is processed is not to leave the per-URL loop.
  With two URLs of which the first makes an extractor raise, the loop of src/runner.py
  ends with that exception and scrapes nothing, while the loop of src/main.py skips the
  URL and returns the record of the second one.
\<close>

theorem runner_loop_exception_escapes:
  "runner_loop sample_env [''u1'', ''u2''] [] = Inl AttributeError
   \<and> main_loop sample_env False 3 0
       \<lparr>all_products = [], processed_product_urls = {}, product_urls = [''u1'', ''u2'']\<rparr>
     = Some (Inr \<lparr>all_products = [[(''source'', PStr ''u2'')]],
                  processed_product_urls = {''u2''},
                  product_urls = [''u1'', ''u2'']\<rparr>)"
  by (simp add: sample_env_def process_product_def normalize_url_def strip_def py_isspace_def
      main_step_def Let_def eval_nat_numeral)

section \<open>Properties of the popularity counts\<close>

lemma space_not_numeric: "py_isspace c \<Longrightarrow> \<not> is_numeric_char c"
  by (auto simp: py_isspace_def is_numeric_char_def is_digit_def Let_def)

lemma space_not_suffix: "py_isspace c \<Longrightarrow> \<not> is_suffix_char c"
  by (auto simp: py_isspace_def is_suffix_char_def Let_def)

lemma suffix_not_numeric: "is_suffix_char c \<Longrightarrow> \<not> is_numeric_char c"
  by (auto simp: is_suffix_char_def is_numeric_char_def is_digit_def Let_def)

lemma suffix_not_space: "is_suffix_char c \<Longrightarrow> \<not> py_isspace c"
  by (auto simp: py_isspace_def is_suffix_char_def Let_def)

lemma numeric_not_space: "is_numeric_char c \<Longrightarrow> \<not> py_isspace c"
  using space_not_numeric by blast

lemma digit_plain:
  assumes "is_digit c"
  shows "\<not> py_isspace c" "c \<noteq> CHR ''.''" "c \<noteq> CHR '',''" "c \<noteq> CHR ''_''" "\<not> is_exp_char c"
    "py_lower_char c = c" "c \<noteq> CHR ''-''" "c \<noteq> CHR ''+''" "c \<noteq> CHR ''i''" "c \<noteq> CHR ''n''"
    "is_numeric_char c" "\<not> float_space c" "ascii_lower_char c = c"
  using assms
  by (auto simp: is_digit_def py_isspace_def is_exp_char_def py_lower_char_def is_numeric_char_def
      float_space_def ascii_lower_char_def Let_def)

lemma dot_plain:
  "\<not> float_space (CHR ''.'')" "\<not> is_exp_char (CHR ''.'')"
  "ascii_lower_char (CHR ''.'') = CHR ''.''"
  by (simp_all add: float_space_def is_exp_char_def ascii_lower_char_def)

lemma float_strip_no_space:
  assumes "s \<noteq> []" "\<not> float_space (hd s)" "\<not> float_space (last s)"
  shows "float_strip s = s"
proof -
  from assms have a: "dropWhile float_space s = s"
    by (cases s) simp_all
  from assms have "rev s \<noteq> []" "\<not> float_space (hd (rev s))"
    by (simp_all add: hd_rev)
  then have b: "dropWhile float_space (rev s) = rev s"
    by (cases "rev s") simp_all
  show ?thesis by (simp add: float_strip_def a b)
qed

lemma digitpart_digits: "ds \<noteq> [] \<Longrightarrow> list_all is_digit ds \<Longrightarrow> digitpart ds"
proof (induction ds rule: digitpart.induct)
  case 1
  then show ?case by simp
next
  case (2 c)
  then show ?case by simp
next
  case (3 c d cs)
  then show ?case using digit_plain(4) [of d] by auto
qed

lemma no_underscores_digits: "list_all is_digit ds \<Longrightarrow> no_underscores ds = ds"
  using digit_plain(4) by (induction ds) (auto simp: no_underscores_def)

lemma numeric_of_grouped: "list_all is_digit (remove_commas g) \<Longrightarrow> list_all is_numeric_char g"
  by (induction g) (auto simp: remove_commas_def is_numeric_char_def split: if_splits)

lemma remove_commas_digits: "list_all is_digit ds \<Longrightarrow> remove_commas ds = ds"
  using digit_plain(3) by (induction ds) (auto simp: remove_commas_def)

lemma takeWhile_none: "\<forall>c \<in> set ys. \<not> P c \<Longrightarrow> takeWhile P ys = [] \<and> dropWhile P ys = ys"
  by (cases ys) simp_all

lemma dropWhile_all: "list_all P xs \<Longrightarrow> dropWhile P (xs @ ys) = dropWhile P ys"
  by (induction xs) simp_all

lemma takeWhile_all: "list_all P xs \<Longrightarrow> takeWhile P (xs @ ys) = xs @ takeWhile P ys"
  by (induction xs) simp_all

lemma suffix_cases:
  assumes "suffix_factor suf \<noteq> None"
  shows "suf = [] \<or> (\<exists>c. suf = [c] \<and> is_suffix_char c)"
  using assms by (auto simp: suffix_factor_def is_suffix_char_def split: if_splits)

lemma match_number_with_suffix_groups:
  assumes ws1: "list_all py_isspace ws1" and ws2: "list_all py_isspace ws2"
    and ws3: "list_all py_isspace ws3"
    and ne: "num \<noteq> []" and num: "list_all is_numeric_char num"
    and suf: "suffix_factor suf \<noteq> None"
  shows "match_number_with_suffix (ws1 @ num @ ws2 @ suf @ ws3) = Some (num, suf)"
proof -
  let ?tail = "ws2 @ suf @ ws3"
  obtain n ns where nn: "num = n # ns" using ne by (cases num) auto
  with num have "\<not> py_isspace n" using numeric_not_space by simp
  then have t1: "dropWhile py_isspace (ws1 @ num @ ?tail) = num @ ?tail"
    using dropWhile_all [OF ws1] nn by simp
  have tail: "\<forall>c \<in> set ?tail. \<not> is_numeric_char c"
    using ws2 ws3 suffix_cases [OF suf] space_not_numeric suffix_not_numeric
    by (auto simp: list_all_iff)
  have tk: "takeWhile is_numeric_char (num @ ?tail) = num"
    using takeWhile_all [OF num, of ?tail] takeWhile_none [OF tail] by simp
  have dr: "dropWhile is_numeric_char (num @ ?tail) = ?tail"
    using dropWhile_all [OF num, of ?tail] takeWhile_none [OF tail] by simp
  have sp3: "dropWhile py_isspace ws3 = []"
    using ws3 by (simp add: list_all_iff)
  have step: "match_number_with_suffix (ws1 @ num @ ?tail) =
      (if dropWhile py_isspace
            (drop (length (take_suffix (dropWhile py_isspace ?tail)))
               (dropWhile py_isspace ?tail)) = []
       then Some (num, take_suffix (dropWhile py_isspace ?tail)) else None)"
    unfolding match_number_with_suffix_def Let_def t1 tk dr using ne by simp
  from suffix_cases [OF suf] show ?thesis
  proof
    assume e: "suf = []"
    have d0: "dropWhile py_isspace (ws2 @ [] @ ws3) = []"
      using dropWhile_all [OF ws2, of ws3] sp3 by simp
    show ?thesis
      by (subst step) (simp only: e d0, simp add: take_suffix_def)
  next
    assume "\<exists>c. suf = [c] \<and> is_suffix_char c"
    then obtain c where c: "suf = [c]" and sc: "is_suffix_char c" by blast
    then have "\<not> py_isspace c" using suffix_not_space by blast
    then have d1: "dropWhile py_isspace (ws2 @ [c] @ ws3) = c # ws3"
      using dropWhile_all [OF ws2, of "[c] @ ws3"] by simp
    show ?thesis
      by (subst step) (simp only: c d1, simp add: take_suffix_def sp3 sc)
  qed
qed

lemma parse_mantissa_number:
  assumes ne: "ip \<noteq> []" and ip: "list_all is_digit ip"
    and fp: "case fp of None \<Rightarrow> True | Some ds \<Rightarrow> list_all is_digit ds"
  shows "parse_mantissa (ip @ fraction_text fp) =
     Some (of_nat (digits_val ip)
           + (case fp of None \<Rightarrow> 0 | Some ds \<Rightarrow> of_nat (digits_val ds) / 10 ^ length ds))"
proof -
  have nodot: "list_all (\<lambda>c. c \<noteq> CHR ''.'') ip"
    using ip digit_plain(2) by (auto simp: list_all_iff)
  have dp: "digitpart ip" using digitpart_digits [OF ne ip] .
  have nu: "no_underscores ip = ip" using no_underscores_digits [OF ip] .
  show ?thesis
  proof (cases fp)
    case None
    have tk: "takeWhile (\<lambda>c. c \<noteq> CHR ''.'') ip = ip"
      and dr: "dropWhile (\<lambda>c. c \<noteq> CHR ''.'') ip = []"
      using nodot by (simp_all add: list_all_iff)
    show ?thesis
      by (simp add: parse_mantissa_def fraction_text_def Let_def None tk dr dp nu)
  next
    case (Some ds)
    with fp have ds: "list_all is_digit ds" by simp
    have tk: "takeWhile (\<lambda>c. c \<noteq> CHR ''.'') (ip @ CHR ''.'' # ds) = ip"
      using takeWhile_all [OF nodot, of "CHR ''.'' # ds"] by simp
    have dr: "dropWhile (\<lambda>c. c \<noteq> CHR ''.'') (ip @ CHR ''.'' # ds) = CHR ''.'' # ds"
      using dropWhile_all [OF nodot, of "CHR ''.'' # ds"] by simp
    have dsp: "ds = [] \<or> digitpart ds"
      using digitpart_digits [OF _ ds] by blast
    have nud: "no_underscores ds = ds" using no_underscores_digits [OF ds] .
    show ?thesis
      using dsp ne
      by (auto simp: parse_mantissa_def fraction_text_def Let_def Some tk dr dp nu nud)
  qed
qed

lemma number_chars:
  assumes ne: "ip \<noteq> []" and ip: "list_all is_digit ip"
    and fp: "case fp of None \<Rightarrow> True | Some ds \<Rightarrow> list_all is_digit ds"
  shows "list_all (\<lambda>c. is_digit c \<or> c = CHR ''.'') (ip @ fraction_text fp)"
  using ip fp by (auto simp: fraction_text_def list_all_iff split: option.splits)

lemma py_float_of_plain_number:
  assumes ne: "ip \<noteq> []" and ip: "list_all is_digit ip"
    and fp: "case fp of None \<Rightarrow> True | Some ds \<Rightarrow> list_all is_digit ds"
  shows "py_float_of_str (ip @ fraction_text fp) =
     Some (fl (of_nat (digits_val ip)
           + (case fp of None \<Rightarrow> 0 | Some ds \<Rightarrow> of_nat (digits_val ds) / 10 ^ length ds)))"
proof -
  let ?s = "ip @ fraction_text fp"
  have chars: "\<forall>c \<in> set ?s. is_digit c \<or> c = CHR ''.''"
    using number_chars [OF ne ip fp] by (simp add: list_all_iff)
  obtain d rest where s: "?s = d # rest" and d: "is_digit d"
    using ne ip by (cases ip) auto
  have sne: "?s \<noteq> []" using ne by simp
  have "last ?s \<in> set ?s" using sne by (rule last_in_set)
  with chars have "is_digit (last ?s) \<or> last ?s = CHR ''.''" by blast
  then have lst: "\<not> float_space (last ?s)" using digit_plain(12) dot_plain(1) by auto
  have hd: "\<not> float_space (hd ?s)" using s d digit_plain(12) by simp
  have st: "float_strip ?s = ?s" using float_strip_no_space [OF sne hd lst] .
  have low: "ascii_lower ?s = ?s"
    unfolding ascii_lower_def using chars digit_plain(13) dot_plain(3) by (intro map_idI) auto
  have notword: "?s \<noteq> ''inf''" "?s \<noteq> ''infinity''" "?s \<noteq> ''nan''"
    using s d digit_plain(9,10) by auto
  have sign: "hd ?s \<noteq> CHR ''-''" "hd ?s \<noteq> CHR ''+''"
    using s d digit_plain(7,8) by auto
  have noexp: "\<forall>c \<in> set ?s. \<not> is_exp_char c"
    using chars digit_plain(5) dot_plain(2) by auto
  then have tk: "takeWhile (\<lambda>c. \<not> is_exp_char c) ?s = ?s"
    and dr: "dropWhile (\<lambda>c. \<not> is_exp_char c) ?s = []"
    by simp_all
  have pf: "parse_floatnumber ?s = parse_mantissa ?s"
    unfolding parse_floatnumber_def Let_def tk dr by (simp split: option.splits)
  have body: "py_float_of_str ?s =
      (case parse_floatnumber ?s of None \<Rightarrow> None | Some q \<Rightarrow> Some (fl q))"
    by (simp add: py_float_of_str_def Let_def st sign sne low notword split: option.splits)
  show ?thesis
    unfolding body pf parse_mantissa_number [OF ne ip fp] by simp
qed

lemma py_float_of_number:
  assumes wf: "well_formed_number g fp"
  shows "py_float_of_str (remove_commas (g @ fraction_text fp)) = Some (fl (decimal_value g fp))"
proof -
  from wf have ne: "remove_commas g \<noteq> []" and ip: "list_all is_digit (remove_commas g)"
    and fp: "case fp of None \<Rightarrow> True | Some ds \<Rightarrow> list_all is_digit ds"
    by (simp_all add: well_formed_number_def)
  have "remove_commas (fraction_text fp) = fraction_text fp"
    using fp remove_commas_digits
    by (cases fp) (simp_all add: fraction_text_def remove_commas_def)
  then have rc: "remove_commas (g @ fraction_text fp) = remove_commas g @ fraction_text fp"
    by (simp add: remove_commas_def)
  show ?thesis
    unfolding rc decimal_value_def using py_float_of_plain_number [OF ne ip fp] .
qed

lemmas parse_eval = parse_number_with_suffix_def match_number_with_suffix_def take_suffix_def
  is_suffix_char_def is_numeric_char_def is_digit_def py_isspace_def remove_commas_def
  py_float_of_str_def float_strip_def float_space_def ascii_lower_def ascii_lower_char_def
  py_lower_def py_lower_char_def parse_floatnumber_def parse_mantissa_def is_exp_char_def
  no_underscores_def digits_val_def digit_val_def scale_by_suffix_def Let_def char_of_def
  bit_iff_odd

lemma floor_one_div_numeral: "\<lfloor>(1::rat) / numeral b\<rfloor> = 1 div numeral b"
  using floor_divide_of_int_eq [of 1 "numeral b", where ?'a = rat] by simp

lemma round_half_even_nearest: "\<bar>of_int (round_half_even x) - x\<bar> \<le> 1 / 2"
proof -
  have "of_int \<lfloor>x\<rfloor> \<le> x" "x < of_int \<lfloor>x\<rfloor> + 1" by linarith+
  then show ?thesis
    by (auto simp: round_half_even_def round_from_floor_def abs_le_iff)
qed

lemma round_half_even_tie: "x - of_int \<lfloor>x\<rfloor> = 1 / 2 \<longrightarrow> even (round_half_even x)"
  by (simp add: round_half_even_def round_from_floor_def)

lemma scale_by_suffix_factor:
  assumes "suffix_factor suf = Some factor"
  shows "scale_by_suffix (fl q) suf = float_product q factor"
  using assms
  by (auto simp: suffix_factor_def scale_by_suffix_def float_product_def py_lower_def
      py_lower_char_def char_of_def bit_iff_odd split: if_splits)

lemma fraction_numeric:
  "(case fp of None \<Rightarrow> True | Some ds \<Rightarrow> list_all is_digit ds) \<Longrightarrow>
     list_all is_numeric_char (fraction_text fp)"
  using digit_plain(11)
  by (cases fp) (auto simp: fraction_text_def is_numeric_char_def list_all_iff)

text \<open>
  C5, as stated, fails: the text \<open>0.50000000000000000001\<close> denotes a number above one
  half, whose nearest integer is 1, and the parser returns 0: the number is first rounded
  to the float 0.5, and \<open>round\<close> takes a tie to the even integer.
\<close>

theorem parse_number_with_suffix_not_nearest:
  "parse_number_with_suffix (Some ''0.50000000000000000001'') 0 = Inr 0
   \<and> decimal_value ''0'' (Some ''50000000000000000001'')
       = 50000000000000000001 / 100000000000000000000
   \<and> \<not> \<bar>of_int 0 - (50000000000000000001 / 100000000000000000000 :: rat)\<bar> \<le> 1 / 2"
proof -
  have a: "parse_number_with_suffix (Some ''0.50000000000000000001'') 0 = Inr 0"
    by (simp add: parse_eval fl_eval floor_one_div_numeral)
  have b: "decimal_value ''0'' (Some ''50000000000000000001'')
       = 50000000000000000001 / 100000000000000000000"
    by (simp add: decimal_value_def remove_commas_def digits_val_def digit_val_def)
  have c: "\<not> \<bar>of_int 0 - (50000000000000000001 / 100000000000000000000 :: rat)\<bar> \<le> 1 / 2"
    by simp
  from a b c show ?thesis by blast
qed

text \<open>
  C5, amended. For every popularity-count text made of a number with optional thousands
  separators and an optional fraction, followed by an optional suffix k or m in either
  case, with optional whitespace around both, the parser returns the product of the
  number and the factor 1, 1000 or 1,000,000 computed in binary64 (the number rounded
  to the nearest float, the product rounded again) and rounded to the nearest integer,
  a tie going to the even one, provided that product is finite.
\<close>

theorem parse_number_with_suffix_value:
  assumes ws1: "list_all py_isspace ws1" and ws2: "list_all py_isspace ws2"
    and ws3: "list_all py_isspace ws3"
    and wf: "well_formed_number g fp"
    and suf: "suffix_factor suf = Some factor"
    and fin: "float_product (decimal_value g fp) factor = Fin x"
  shows "parse_number_with_suffix (Some (ws1 @ (g @ fraction_text fp) @ ws2 @ suf @ ws3)) dflt
       = Inr (round_half_even x)
     \<and> \<bar>of_int (round_half_even x) - x\<bar> \<le> 1 / 2
     \<and> (x - of_int \<lfloor>x\<rfloor> = 1 / 2 \<longrightarrow> even (round_half_even x))"
proof -
  let ?num = "g @ fraction_text fp"
  from wf have ip: "list_all is_digit (remove_commas g)" and ne: "remove_commas g \<noteq> []"
    and fp: "case fp of None \<Rightarrow> True | Some ds \<Rightarrow> list_all is_digit ds"
    by (simp_all add: well_formed_number_def)
  from ne have gne: "g \<noteq> []" by (auto simp: remove_commas_def)
  have num: "list_all is_numeric_char ?num"
    using numeric_of_grouped [OF ip] fraction_numeric [OF fp] by simp
  have sf: "suffix_factor suf \<noteq> None" using suf by simp
  have m: "match_number_with_suffix (ws1 @ ?num @ ws2 @ suf @ ws3) = Some (?num, suf)"
    using match_number_with_suffix_groups [OF ws1 ws2 ws3 _ num sf] gne by simp
  have f: "py_float_of_str (remove_commas ?num) = Some (fl (decimal_value g fp))"
    using py_float_of_number [OF wf] .
  have sc: "scale_by_suffix (fl (decimal_value g fp)) suf = Fin x"
    using scale_by_suffix_factor [OF suf] fin by simp
  have tne: "ws1 @ ?num @ ws2 @ suf @ ws3 \<noteq> []" using gne by simp
  have "parse_number_with_suffix (Some (ws1 @ ?num @ ws2 @ suf @ ws3)) dflt
      = Inr (round_half_even x)"
    unfolding parse_number_with_suffix_def
    by (simp only: option.case tne if_False m prod.case f sc py_round.simps)
  then show ?thesis using round_half_even_nearest round_half_even_tie by blast
qed

theorem parse_number_with_suffix_value_witness:
  "parse_number_with_suffix (Some ''12.3k'') 0 = Inr 12300
   \<and> parse_number_with_suffix (Some ''2M'') 0 = Inr 2000000
   \<and> parse_number_with_suffix (Some ''450'') 0 = Inr 450
   \<and> parse_number_with_suffix (Some '' 1,234.5 K '') 0 = Inr 1234500"
proof -
  have nil: "list_all py_isspace []" by simp
  have sp: "list_all py_isspace '' ''" by (simp add: py_isspace_def)
  have w1: "well_formed_number ''12'' (Some ''3'')"
    and w2: "well_formed_number ''2'' None"
    and w3: "well_formed_number ''450'' None"
    and w4: "well_formed_number ''1,234'' (Some ''5'')"
    by (simp_all add: well_formed_number_def remove_commas_def is_digit_def)
  have s1: "suffix_factor ''k'' = Some 1000" and s2: "suffix_factor ''M'' = Some 1000000"
    and s3: "suffix_factor [] = Some 1" and s4: "suffix_factor ''K'' = Some 1000"
    by (simp_all add: suffix_factor_def)
  have p1: "float_product (decimal_value ''12'' (Some ''3'')) 1000 = Fin 12300"
    by (simp add: float_product_def decimal_value_def remove_commas_def digits_val_def
        digit_val_def fl_eval)
  have p2: "float_product (decimal_value ''2'' None) 1000000 = Fin 2000000"
    by (simp add: float_product_def decimal_value_def remove_commas_def digits_val_def
        digit_val_def fl_eval)
  have p3: "float_product (decimal_value ''450'' None) 1 = Fin 450"
    by (simp add: float_product_def decimal_value_def remove_commas_def digits_val_def
        digit_val_def fl_eval)
  have p4: "float_product (decimal_value ''1,234'' (Some ''5'')) 1000 = Fin 1234500"
    by (simp add: float_product_def decimal_value_def remove_commas_def digits_val_def
        digit_val_def fl_eval)
  have r: "round_half_even 12300 = 12300" "round_half_even 2000000 = 2000000"
    "round_half_even 450 = 450" "round_half_even 1234500 = 1234500"
    by (simp_all add: round_half_even_def round_from_floor_def)
  have a: "parse_number_with_suffix (Some ''12.3k'') 0 = Inr 12300"
    using parse_number_with_suffix_value [OF nil nil nil w1 s1 p1, of 0]
    by (simp add: fraction_text_def r)
  have b: "parse_number_with_suffix (Some ''2M'') 0 = Inr 2000000"
    using parse_number_with_suffix_value [OF nil nil nil w2 s2 p2, of 0]
    by (simp add: fraction_text_def r)
  have c: "parse_number_with_suffix (Some ''450'') 0 = Inr 450"
    using parse_number_with_suffix_value [OF nil nil nil w3 s3 p3, of 0]
    by (simp add: fraction_text_def r)
  have d: "parse_number_with_suffix (Some '' 1,234.5 K '') 0 = Inr 1234500"
    using parse_number_with_suffix_value [OF sp sp sp w4 s4 p4, of 0]
    by (simp add: fraction_text_def r)
  from a b c d show ?thesis by blast
qed

end
